theory Spec2Isabelle
  imports Main "HOL-Library.Char_ord" "HOL-Library.List_Lexorder"
begin

section \<open>Go values: strings, errors and the standard-library calls the package makes\<close>

text \<open>
  A Go \<open>string\<close> is a sequence of bytes, which is what \<^typ>\<open>string\<close> (a list of 8-bit
  \<^typ>\<open>char\<close>) is. A Go function returning \<open>(T, error)\<close> is modelled as returning a pair
  whose second component is \<open>None\<close> for \<open>nil\<close>: the Go callers below sometimes read the
  value and drop the error (\<open>fieldValue, _ := fieldReader.AsString()\<close>), so both
  components are kept. Go's \<open>int\<close> is the 64-bit integer of the platforms cgo builds for;
  values are \<^typ>\<open>int\<close> and the one place a bound matters (\<open>strconv.Atoi\<close>) checks it.
\<close>

subsection \<open>header.go: \<open>FieldType\<close>\<close>

datatype FieldType =
    FTUnknown | FTCharacter | FTNumeric | FTLogical | FTDate | FTInteger | FTDateTime
  | FTCurrency | FTMemo | FTBlob | FTFloat | FTGeneral | FTPicture | FTVarBinary
  | FTVarchar | FTTimestamp | FTDouble

subsection \<open>errors.go: \<open>Error\<close>, \<open>NewError\<close>, \<open>NewErrorf\<close>\<close>

text \<open>
  \<open>Error{message}\<close>. A message built by \<open>fmt.Sprintf\<close> is kept as the format string
  with its arguments (strings, integers, field types, errors), unformatted. \<open>errors_New\<close> and \<open>fmt_Errorf\<close> are the standard
  library's error values, which the date reader returns, and \<open>NumError\<close> is the
  \<open>*strconv.NumError\<close> of a failed conversion (function name and input).
\<close>

datatype fmtArg = ArgS string | ArgI int | ArgT FieldType | ArgE error
  and error =
    NewError string
  | NewErrorf string "fmtArg list"
  | errors_New string
  | fmt_Errorf string "fmtArg list"
  | NumError string string


subsection \<open>\<open>strings.TrimSpace\<close>\<close>

text \<open>
  \<open>strings.TrimSpace\<close> removes leading and trailing white space as \<open>unicode.IsSpace\<close>
  defines it, reading the string as UTF-8: the six ASCII characters of its \<open>asciiSpace\<close>
  table, U+0085 and U+00A0 (two bytes each) and U+1680, U+2000..U+200A, U+2028, U+2029,
  U+202F, U+205F, U+3000 (three bytes each). A byte sequence that is not the UTF-8
  encoding of one of these is not white space.
\<close>

definition asciiSpace :: "char list" where
  "asciiSpace = [CHR 0x09, CHR 0x0A, CHR 0x0B, CHR 0x0C, CHR 0x0D, CHR 0x20]"

definition unicodeSpace2 :: "string list" where
  "unicodeSpace2 = [[CHR 0xC2, CHR 0x85], [CHR 0xC2, CHR 0xA0]]"

definition unicodeSpace3 :: "string list" where
  "unicodeSpace3 =
     [[CHR 0xE1, CHR 0x9A, CHR 0x80],
      [CHR 0xE2, CHR 0x80, CHR 0x80], [CHR 0xE2, CHR 0x80, CHR 0x81],
      [CHR 0xE2, CHR 0x80, CHR 0x82], [CHR 0xE2, CHR 0x80, CHR 0x83],
      [CHR 0xE2, CHR 0x80, CHR 0x84], [CHR 0xE2, CHR 0x80, CHR 0x85],
      [CHR 0xE2, CHR 0x80, CHR 0x86], [CHR 0xE2, CHR 0x80, CHR 0x87],
      [CHR 0xE2, CHR 0x80, CHR 0x88], [CHR 0xE2, CHR 0x80, CHR 0x89],
      [CHR 0xE2, CHR 0x80, CHR 0x8A],
      [CHR 0xE2, CHR 0x80, CHR 0xA8], [CHR 0xE2, CHR 0x80, CHR 0xA9],
      [CHR 0xE2, CHR 0x80, CHR 0xAF], [CHR 0xE2, CHR 0x81, CHR 0x9F],
      [CHR 0xE3, CHR 0x80, CHR 0x80]]"

text \<open>The number of bytes of the white-space rune the string starts with; 0 when it
  starts with none.\<close>

definition spacePrefix :: "string \<Rightarrow> nat" where
  "spacePrefix s =
     (if s = [] then 0
      else if hd s \<in> set asciiSpace then 1
      else if take 2 s \<in> set unicodeSpace2 then 2
      else if take 3 s \<in> set unicodeSpace3 then 3
      else 0)"

text \<open>The same for the rune the string ends with (\<open>utf8.DecodeLastRuneInString\<close>
  steps back to the nearest byte that starts a rune).\<close>

definition spaceSuffix :: "string \<Rightarrow> nat" where
  "spaceSuffix s =
     (if s = [] then 0
      else if last s \<in> set asciiSpace then 1
      else if drop (length s - 2) s \<in> set unicodeSpace2 then 2
      else if drop (length s - 3) s \<in> set unicodeSpace3 then 3
      else 0)"

function TrimLeft :: "string \<Rightarrow> string" where
  "TrimLeft s = (if spacePrefix s = 0 then s else TrimLeft (drop (spacePrefix s) s))"
  by pat_completeness auto
termination
  by (relation "measure length") (auto simp: spacePrefix_def split: if_splits)

function TrimRight :: "string \<Rightarrow> string" where
  "TrimRight s =
     (if spaceSuffix s = 0 then s else TrimRight (take (length s - spaceSuffix s) s))"
  by pat_completeness auto
termination
  by (relation "measure length") (auto simp: spaceSuffix_def split: if_splits)

definition TrimSpace :: "string \<Rightarrow> string" where
  "TrimSpace s = TrimRight (TrimLeft s)"

subsection \<open>\<open>strings.ToUpper\<close>\<close>

text \<open>
  \<open>strings.ToUpper\<close> maps \<open>a\<close>..\<open>z\<close> to \<open>A\<close>..\<open>Z\<close> when every byte is ASCII. A string
  with a byte of 0x80 or more goes through \<open>strings.Map(unicode.ToUpper, s)\<close>, whose
  tables are the Unicode database: that function is the parameter \<open>unicodeUpper\<close>.
\<close>

definition isASCII :: "string \<Rightarrow> bool" where
  "isASCII s = list_all (\<lambda>c. (of_char c :: nat) < 128) s"



subsection \<open>\<open>strconv.Atoi\<close>\<close>

text \<open>
  \<open>strconv.Atoi\<close>: an optional sign, then one or more decimal digits and nothing else;
  the value has to fit the 64-bit \<open>int\<close>. \<open>None\<close> is the \<open>*NumError\<close> (syntax or range).
\<close>

definition isDigit :: "char \<Rightarrow> bool" where
  "isDigit c = (CHR ''0'' \<le> c \<and> c \<le> CHR ''9'')"

fun digitsVal :: "int \<Rightarrow> string \<Rightarrow> int" where
  "digitsVal n [] = n"
| "digitsVal n (c # cs) = digitsVal (n * 10 + (int (of_char c) - 48)) cs"

definition Atoi :: "string \<Rightarrow> int option" where
  "Atoi s =
     (let neg = (s \<noteq> [] \<and> hd s = CHR ''-'');
          ds = (if s \<noteq> [] \<and> (hd s = CHR ''-'' \<or> hd s = CHR ''+'') then tl s else s)
      in if ds = [] \<or> \<not> list_all isDigit ds then None
         else let n = (if neg then - digitsVal 0 ds else digitsVal 0 ds)
              in if n < - (2 ^ 63) \<or> 2 ^ 63 - 1 < n then None else Some n)"

subsection \<open>\<open>time.Time\<close> for calendar dates\<close>

text \<open>
  The date reader builds \<open>time.Date(year, month, day, 0, 0, 0, 0, time.UTC)\<close> and returns
  \<open>time.Time{}\<close> for a blank date. Both are instants at midnight UTC, so a \<open>Time\<close> is
  modelled by its number of days since 1 January of year 1, which is the zero
  \<open>time.Time{}\<close>. \<open>time.Date\<close> accepts any year and normalises a day beyond the end of
  the month into the next month, which counting days does.
\<close>

type_synonym Time = int

definition zeroTime :: Time where
  "zeroTime = 0"

definition isLeap :: "int \<Rightarrow> bool" where
  "isLeap y = (y mod 4 = 0 \<and> (y mod 100 \<noteq> 0 \<or> y mod 400 = 0))"

definition daysBefore :: "int list" where
  "daysBefore = [0, 31, 59, 90, 120, 151, 181, 212, 243, 273, 304, 334]"

text \<open>For a month in 1..12, the only months the reader passes.\<close>

definition time_Date :: "int \<Rightarrow> int \<Rightarrow> int \<Rightarrow> Time" where
  "time_Date year month day =
     365 * (year - 1) + (year - 1) div 4 - (year - 1) div 100 + (year - 1) div 400
     + daysBefore ! nat (month - 1)
     + (if isLeap year \<and> 3 \<le> month then 1 else 0)
     + (day - 1)"

section \<open>The storage engine\<close>

text \<open>
  Modelled from the spec: the CodeBase library behind \<open>d4all.h\<close> (\<open>d4top\<close>, \<open>d4skip\<close>,
  \<open>d4go\<close>, \<open>d4eof\<close>, \<open>d4bof\<close>, \<open>d4recNo\<close>, \<open>d4deleted\<close>, \<open>d4delete\<close>, \<open>d4recall\<close>,
  \<open>d4pack\<close>, \<open>d4tagSelect\<close>, \<open>d4tagSelected\<close>, \<open>d4tagNext\<close>, \<open>t4alias\<close>, \<open>d4seek\<close>,
  \<open>f4str\<close>, \<open>f4ptr\<close>, \<open>f4len\<close>, \<open>expr4true\<close>), of which the repository holds the
  headers only. The spec describes it as the collaborator that positions, advances and
  jumps the cursor and reports BOF, EOF and the current ordinal; reads a column's raw
  bytes for the current row; binds and seeks named indexes; marks, recalls and compacts
  rows (sections 3, 4.2 to 4.4 and 6). The cursor is in exactly one of BOF, EOF and
  positioned at row N; a row carries a deletion flag independent of its column data; an
  index is a named alternate ordering of the rows by key; the selected ordering is
  physical order or one index; selecting an ordering does not move the cursor.
  Return codes are numbered as the comments of \<open>convertSeekResult\<close> number them.
\<close>

datatype cursor = AtBOF | AtEOF | AtRow nat

record row =
  deleted :: bool
  cells :: "string list"

text \<open>An index tag: its name (\<open>t4alias\<close>) and the column whose bytes are its key. A
  \<open>TAG4*\<close> is the tag's place in the table's list of tags.\<close>

record TAG4 =
  tagName :: string
  keyField :: nat

record DATA4 =
  rows :: "row list"
  cur :: cursor
  tags :: "TAG4 list"
  tagSelected :: "nat option"

definition r4success :: int where "r4success = 0"
definition r4after :: int where "r4after = 1"
definition r4eof :: int where "r4eof = 2"
definition r4entry :: int where "r4entry = 3"
definition r4noTag :: int where "r4noTag = - 1"

text \<open>The bytes of column \<open>j\<close> of record \<open>n\<close> (1-based); empty where there is none.\<close>

definition cellOf :: "DATA4 \<Rightarrow> nat \<Rightarrow> nat \<Rightarrow> string" where
  "cellOf d n j =
     (if 1 \<le> n \<and> n \<le> length (rows d) \<and> j < length (cells (rows d ! (n - 1)))
      then cells (rows d ! (n - 1)) ! j else [])"

definition physicalOrder :: "DATA4 \<Rightarrow> nat list" where
  "physicalOrder d = [1..<Suc (length (rows d))]"

text \<open>The record numbers in the order of tag \<open>t\<close>: by key bytes, equal keys in record
  order.\<close>

definition tagOrder :: "DATA4 \<Rightarrow> nat \<Rightarrow> nat list" where
  "tagOrder d t =
     (if t < length (tags d)
      then sort_key (\<lambda>n. cellOf d n (keyField (tags d ! t))) (physicalOrder d)
      else physicalOrder d)"

definition recOrder :: "DATA4 \<Rightarrow> nat list" where
  "recOrder d = (case tagSelected d of None \<Rightarrow> physicalOrder d | Some t \<Rightarrow> tagOrder d t)"

definition d4eof :: "DATA4 \<Rightarrow> int" where
  "d4eof d = (if cur d = AtEOF then 1 else 0)"

definition d4bof :: "DATA4 \<Rightarrow> int" where
  "d4bof d = (if cur d = AtBOF then 1 else 0)"

definition d4recNo :: "DATA4 \<Rightarrow> int" where
  "d4recNo d = (case cur d of AtRow n \<Rightarrow> int n | _ \<Rightarrow> 0)"

definition d4top :: "DATA4 \<Rightarrow> int \<times> DATA4" where
  "d4top d =
     (case recOrder d of
        [] \<Rightarrow> (r4eof, d\<lparr>cur := AtEOF\<rparr>)
      | n # _ \<Rightarrow> (r4success, d\<lparr>cur := AtRow n\<rparr>))"

text \<open>\<open>d4skip(data, 1)\<close>, the one skip the scans make: to the next record of the
  selected ordering, or to EOF after its last.\<close>

definition d4skip1 :: "DATA4 \<Rightarrow> int \<times> DATA4" where
  "d4skip1 d =
     (case cur d of
        AtEOF \<Rightarrow> (r4eof, d)
      | AtBOF \<Rightarrow> d4top d
      | AtRow n \<Rightarrow>
          (case dropWhile (\<lambda>k. k \<noteq> n) (recOrder d) of
             _ # m # _ \<Rightarrow> (r4success, d\<lparr>cur := AtRow m\<rparr>)
           | _ \<Rightarrow> (r4eof, d\<lparr>cur := AtEOF\<rparr>)))"

definition d4go :: "DATA4 \<Rightarrow> int \<Rightarrow> int \<times> DATA4" where
  "d4go d n =
     (if 1 \<le> n \<and> n \<le> int (length (rows d)) then (r4success, d\<lparr>cur := AtRow (nat n)\<rparr>)
      else (r4entry, d))"

definition d4deleted :: "DATA4 \<Rightarrow> int" where
  "d4deleted d =
     (case cur d of
        AtRow n \<Rightarrow> (if 1 \<le> n \<and> n \<le> length (rows d) \<and> deleted (rows d ! (n - 1)) then 1 else 0)
      | _ \<Rightarrow> 0)"

definition setDeleted :: "bool \<Rightarrow> DATA4 \<Rightarrow> DATA4" where
  "setDeleted b d =
     (case cur d of
        AtRow n \<Rightarrow>
          (if 1 \<le> n \<and> n \<le> length (rows d)
           then d\<lparr>rows := (rows d)[n - 1 := (rows d ! (n - 1))\<lparr>deleted := b\<rparr>]\<rparr>
           else d)
      | _ \<Rightarrow> d)"

definition d4delete :: "DATA4 \<Rightarrow> DATA4" where
  "d4delete d = setDeleted True d"

definition d4recall :: "DATA4 \<Rightarrow> DATA4" where
  "d4recall d = setDeleted False d"

text \<open>
  \<open>d4pack\<close> removes every flagged row. The spec leaves the cursor undefined afterwards
  and lets the engine fail (out of space, a lock): the code \<open>io\<close> is what the engine's
  file operations report (0 when they go through) and \<open>c\<close> is the cursor it leaves.
\<close>

definition d4pack :: "int \<Rightarrow> cursor \<Rightarrow> DATA4 \<Rightarrow> int \<times> DATA4" where
  "d4pack io c d =
     (if io \<noteq> 0 then (io, d)
      else (r4success, d\<lparr>rows := filter (\<lambda>r. \<not> deleted r) (rows d), cur := c\<rparr>))"

definition d4tagSelect :: "DATA4 \<Rightarrow> nat option \<Rightarrow> DATA4" where
  "d4tagSelect d t = d\<lparr>tagSelected := t\<rparr>"

definition d4tagSelected :: "DATA4 \<Rightarrow> nat option" where
  "d4tagSelected d = tagSelected d"

definition t4alias :: "DATA4 \<Rightarrow> nat \<Rightarrow> string" where
  "t4alias d t = (if t < length (tags d) then tagName (tags d ! t) else [])"

text \<open>
  \<open>d4seek\<close> under the selected tag: the first record, in the tag's order, whose key does
  not sort before the search value, compared over the length of the search value (a
  Character key matches on a prefix). As for \<open>d4pack\<close>, \<open>io\<close> is the engine's own
  failure code, 0 when the search runs.
\<close>

definition d4seek :: "int \<Rightarrow> DATA4 \<Rightarrow> string \<Rightarrow> int \<times> DATA4" where
  "d4seek io d str =
     (if io \<noteq> 0 then (io, d)
      else case d4tagSelected d of
        None \<Rightarrow> (r4noTag, d)
      | Some t \<Rightarrow>
          (case dropWhile (\<lambda>n. take (length str) (cellOf d n (keyField (tags d ! t))) < str)
                  (tagOrder d t) of
             [] \<Rightarrow> (r4eof, d\<lparr>cur := AtEOF\<rparr>)
           | n # _ \<Rightarrow>
               (if take (length str) (cellOf d n (keyField (tags d ! t))) = str
                then (r4success, d\<lparr>cur := AtRow n\<rparr>)
                else (r4after, d\<lparr>cur := AtRow n\<rparr>))))"

text \<open>The field's text for the current record as the C string \<open>f4str\<close> returns;
  \<open>None\<close> is a null pointer.\<close>

definition f4str :: "DATA4 \<Rightarrow> nat \<Rightarrow> string option" where
  "f4str d j =
     (case cur d of
        AtRow n \<Rightarrow>
          (if 1 \<le> n \<and> n \<le> length (rows d) \<and> j < length (cells (rows d ! (n - 1)))
           then Some (cellOf d n j) else None)
      | _ \<Rightarrow> None)"

text \<open>\<open>f4ptr\<close> points at the field's bytes in the record buffer and \<open>f4len\<close> is their
  number.\<close>

definition f4ptr :: "DATA4 \<Rightarrow> nat \<Rightarrow> string option" where
  "f4ptr d j = f4str d j"

definition f4len :: "DATA4 \<Rightarrow> nat \<Rightarrow> int" where
  "f4len d j = (case f4ptr d j of Some bs \<Rightarrow> int (length bs) | None \<Rightarrow> 0)"

text \<open>A compiled expression (\<open>EXPR4\<close>) reads the table at its current record;
  \<open>expr4true\<close> evaluates it.\<close>

type_synonym EXPR4 = "DATA4 \<Rightarrow> int"

definition expr4true :: "EXPR4 \<Rightarrow> DATA4 \<Rightarrow> int" where
  "expr4true e d = e d"

text \<open>The engine's invariant: a positioned cursor addresses an existing row and the
  selected ordering is one of the table's tags.\<close>

definition wellFormed :: "DATA4 \<Rightarrow> bool" where
  "wellFormed d =
     ((case cur d of AtRow n \<Rightarrow> 1 \<le> n \<and> n \<le> length (rows d) | _ \<Rightarrow> True) \<and>
      (case tagSelected d of Some t \<Rightarrow> t < length (tags d) | None \<Rightarrow> True))"

text \<open>\<open>d4seekDouble\<close> compares keys as floating-point numbers, which are not modelled:
  \<open>locate\<close> stands for the engine's search, giving the return code and where the cursor
  lands. Like \<open>d4seek\<close> it moves the cursor and nothing else.\<close>

definition d4seekDouble :: "(DATA4 \<Rightarrow> 'f \<Rightarrow> int \<times> cursor) \<Rightarrow> DATA4 \<Rightarrow> 'f \<Rightarrow> int \<times> DATA4" where
  "d4seekDouble locate d x = (case locate d x of (rc, c) \<Rightarrow> (rc, d\<lparr>cur := c\<rparr>))"

section \<open>The table handle and its cursor (vulpo.go, navigation)\<close>

record FieldDef =
  fieldname :: string
  fieldtype :: FieldType

text \<open>
  \<open>Vulpo\<close>: \<open>data\<close> is the engine's \<open>DATA4*\<close>, \<open>None\<close> while no table is open;
  \<open>fieldDefs\<close> is the column list read at \<open>Open\<close>. \<open>C.CString\<close> and \<open>C.GoString\<close> carry a
  string across the C boundary unchanged.
\<close>

record Vulpo =
  data :: "DATA4 option"
  fieldDefs :: "FieldDef list"

definition Active :: "Vulpo \<Rightarrow> bool" where
  "Active v = (data v \<noteq> None)"

definition BOF :: "Vulpo \<Rightarrow> bool" where
  "BOF v = (case data v of None \<Rightarrow> False | Some d \<Rightarrow> d4bof d \<noteq> 0)"

definition EOF :: "Vulpo \<Rightarrow> bool" where
  "EOF v = (case data v of None \<Rightarrow> False | Some d \<Rightarrow> d4eof d \<noteq> 0)"

definition Position :: "Vulpo \<Rightarrow> int" where
  "Position v =
     (case data v of
        None \<Rightarrow> - 1
      | Some d \<Rightarrow> (if d4eof d \<noteq> 0 \<or> d4bof d \<noteq> 0 then - 1 else d4recNo d))"

definition Goto :: "Vulpo \<Rightarrow> int \<Rightarrow> error option \<times> Vulpo" where
  "Goto v recordidx =
     (case data v of
        None \<Rightarrow> (Some (NewError ''database not open''), v)
      | Some d \<Rightarrow>
          (if recordidx \<le> 0
           then (Some (NewErrorf ''invalid record index: %d (must be > 0)'' [ArgI recordidx]), v)
           else case d4go d recordidx of
             (result, d') \<Rightarrow>
               (if result \<noteq> 0
                then (Some (NewErrorf ''failed to go to record %d: error code %d''
                              [ArgI recordidx, ArgI result]), v\<lparr>data := Some d'\<rparr>)
                else (None, v\<lparr>data := Some d'\<rparr>))))"

definition Next :: "Vulpo \<Rightarrow> error option \<times> Vulpo" where
  "Next v =
     (case data v of
        None \<Rightarrow> (Some (NewError ''database not open''), v)
      | Some d \<Rightarrow>
          (case d4skip1 d of
             (result, d') \<Rightarrow>
               (if result \<noteq> 0
                then (Some (NewErrorf ''failed to move to next record: error code %d''
                              [ArgI result]), v\<lparr>data := Some d'\<rparr>)
                else (None, v\<lparr>data := Some d'\<rparr>))))"

definition First :: "Vulpo \<Rightarrow> error option \<times> Vulpo" where
  "First v =
     (case data v of
        None \<Rightarrow> (Some (NewError ''database not open''), v)
      | Some d \<Rightarrow>
          (case d4top d of
             (result, d') \<Rightarrow>
               (if result \<noteq> 0
                then (Some (NewErrorf ''failed to go to first record: error code %d''
                              [ArgI result]), v\<lparr>data := Some d'\<rparr>)
                else (None, v\<lparr>data := Some d'\<rparr>))))"

section \<open>Index tags and seeking (vulpo.index.go)\<close>

text \<open>A \<open>*Tag\<close> is a \<open>Tag option\<close> (\<open>None\<close> for \<open>nil\<close>), and so is its \<open>tagPtr\<close>.\<close>

record Tag =
  name :: string
  tagPtr :: "nat option"

definition IsValid :: "Tag \<Rightarrow> bool" where
  "IsValid t = (tagPtr t \<noteq> None)"

definition SelectedTag :: "Vulpo \<Rightarrow> Tag option" where
  "SelectedTag v =
     (case data v of
        None \<Rightarrow> None
      | Some d \<Rightarrow>
          (case d4tagSelected d of
             None \<Rightarrow> None
           | Some p \<Rightarrow> Some \<lparr>name = t4alias d p, tagPtr = Some p\<rparr>))"

definition SelectTag :: "Vulpo \<Rightarrow> Tag option \<Rightarrow> error option \<times> Vulpo" where
  "SelectTag v tag =
     (case data v of
        None \<Rightarrow> (Some (NewError ''database not open''), v)
      | Some d \<Rightarrow>
          (case tag of
             None \<Rightarrow> (None, v\<lparr>data := Some (d4tagSelect d None)\<rparr>)
           | Some t \<Rightarrow>
               (if \<not> IsValid t then (Some (NewError ''invalid tag''), v)
                else (None, v\<lparr>data := Some (d4tagSelect d (tagPtr t))\<rparr>))))"

text \<open>\<open>ListTags\<close> walks \<open>d4tagNext\<close> from the first tag to the last.\<close>

definition ListTags :: "Vulpo \<Rightarrow> Tag list" where
  "ListTags v =
     (case data v of
        None \<Rightarrow> []
      | Some d \<Rightarrow> map (\<lambda>p. \<lparr>name = t4alias d p, tagPtr = Some p\<rparr>) [0..<length (tags d)])"

type_synonym SeekResult = int

definition SeekSuccess :: SeekResult where "SeekSuccess = 0"
definition SeekAfter :: SeekResult where "SeekAfter = 1"
definition SeekEOF :: SeekResult where "SeekEOF = 2"
definition SeekEntry :: SeekResult where "SeekEntry = 3"
definition SeekLocked :: SeekResult where "SeekLocked = 4"
definition SeekUnique :: SeekResult where "SeekUnique = 5"
definition SeekNoTag :: SeekResult where "SeekNoTag = 6"
definition SeekError :: SeekResult where "SeekError = 7"

definition convertSeekResult :: "int \<Rightarrow> SeekResult" where
  "convertSeekResult result =
     (if result = 0 then SeekSuccess
      else if result = 1 then SeekAfter
      else if result = 2 then SeekEOF
      else if result = 3 then SeekEntry
      else if result = 4 then SeekLocked
      else if result = 5 then SeekUnique
      else if result = - 1 then SeekNoTag
      else if result < 0 then SeekError
      else result)"

definition IsPositioned :: "SeekResult \<Rightarrow> bool" where
  "IsPositioned sr = (sr = SeekSuccess \<or> sr = SeekAfter)"

text \<open>In \<open>Seek\<close> and \<open>SeekWithTag\<close>, \<open>io\<close> is the engine failure code \<open>d4seek\<close> takes.\<close>

definition Seek :: "int \<Rightarrow> Vulpo \<Rightarrow> string \<Rightarrow> (SeekResult \<times> error option) \<times> Vulpo" where
  "Seek io v searchValue =
     (case data v of
        None \<Rightarrow> ((SeekError, Some (NewError ''database not open'')), v)
      | Some d \<Rightarrow>
          (case d4seek io d searchValue of
             (result, d') \<Rightarrow> ((convertSeekResult result, None), v\<lparr>data := Some d'\<rparr>)))"

definition SeekDouble ::
  "(DATA4 \<Rightarrow> 'f \<Rightarrow> int \<times> cursor) \<Rightarrow> Vulpo \<Rightarrow> 'f \<Rightarrow> (SeekResult \<times> error option) \<times> Vulpo" where
  "SeekDouble locate v searchValue =
     (case data v of
        None \<Rightarrow> ((SeekError, Some (NewError ''database not open'')), v)
      | Some d \<Rightarrow>
          (case d4seekDouble locate d searchValue of
             (result, d') \<Rightarrow> ((convertSeekResult result, None), v\<lparr>data := Some d'\<rparr>)))"

definition SeekWithTag ::
  "int \<Rightarrow> Vulpo \<Rightarrow> Tag option \<Rightarrow> string \<Rightarrow> (SeekResult \<times> error option) \<times> Vulpo" where
  "SeekWithTag io v tag searchValue =
     (if \<not> Active v then ((SeekError, Some (NewError ''database not open'')), v)
      else case tag of
        None \<Rightarrow> ((SeekError, Some (NewError ''tag cannot be nil'')), v)
      | Some t \<Rightarrow>
          (if \<not> IsValid t then ((SeekError, Some (NewError ''invalid tag'')), v)
           else let originalTag = SelectedTag v in
             case SelectTag v tag of
               (Some err, v1) \<Rightarrow> ((SeekError, Some err), v1)
             | (None, v1) \<Rightarrow>
                 (case Seek io v1 searchValue of
                    ((result, err), v2) \<Rightarrow> ((result, err), snd (SelectTag v2 originalTag)))))"

definition SeekDoubleWithTag ::
  "(DATA4 \<Rightarrow> 'f \<Rightarrow> int \<times> cursor) \<Rightarrow> Vulpo \<Rightarrow> Tag option \<Rightarrow> 'f
     \<Rightarrow> (SeekResult \<times> error option) \<times> Vulpo" where
  "SeekDoubleWithTag locate v tag searchValue =
     (if \<not> Active v then ((SeekError, Some (NewError ''database not open'')), v)
      else case tag of
        None \<Rightarrow> ((SeekError, Some (NewError ''tag cannot be nil'')), v)
      | Some t \<Rightarrow>
          (if \<not> IsValid t then ((SeekError, Some (NewError ''invalid tag'')), v)
           else let originalTag = SelectedTag v in
             case SelectTag v tag of
               (Some err, v1) \<Rightarrow> ((SeekError, Some err), v1)
             | (None, v1) \<Rightarrow>
                 (case SeekDouble locate v1 searchValue of
                    ((result, err), v2) \<Rightarrow> ((result, err), snd (SelectTag v2 originalTag)))))"

section \<open>Deleted records (vulpo.deleted.go)\<close>

definition Deleted :: "Vulpo \<Rightarrow> bool" where
  "Deleted v =
     (case data v of
        None \<Rightarrow> False
      | Some d \<Rightarrow> (if EOF v \<or> BOF v then False else d4deleted d \<noteq> 0))"

definition Delete :: "Vulpo \<Rightarrow> error option \<times> Vulpo" where
  "Delete v =
     (case data v of
        None \<Rightarrow> (Some (NewError ''database not open''), v)
      | Some d \<Rightarrow>
          (if EOF v \<or> BOF v then (Some (NewError ''no current record to delete''), v)
           else (None, v\<lparr>data := Some (d4delete d)\<rparr>)))"

definition Recall :: "Vulpo \<Rightarrow> error option \<times> Vulpo" where
  "Recall v =
     (case data v of
        None \<Rightarrow> (Some (NewError ''database not open''), v)
      | Some d \<Rightarrow>
          (if EOF v \<or> BOF v then (Some (NewError ''no current record to recall''), v)
           else (None, v\<lparr>data := Some (d4recall d)\<rparr>)))"

text \<open>In \<open>Pack\<close>, \<open>io\<close> and \<open>c\<close> are what \<open>d4pack\<close> takes.\<close>

definition Pack :: "int \<Rightarrow> cursor \<Rightarrow> Vulpo \<Rightarrow> error option \<times> Vulpo" where
  "Pack io c v =
     (case data v of
        None \<Rightarrow> (Some (NewError ''database not open''), v)
      | Some d \<Rightarrow>
          (case d4pack io c d of
             (result, d') \<Rightarrow>
               (if result \<noteq> 0
                then (Some (NewErrorf ''failed to pack database: error code %d'' [ArgI result]),
                      v\<lparr>data := Some d'\<rparr>)
                else (None, v\<lparr>data := Some d'\<rparr>))))"

section \<open>Field readers (field reader file, field.string.go, field.date.go)\<close>

text \<open>A reader is bound to its table handle and to its column \<open>cField\<close>; both are
  arguments here.\<close>

definition checkActive :: "Vulpo \<Rightarrow> error option" where
  "checkActive v =
     (if \<not> Active v then Some (NewError ''database not open'')
      else if BOF v then Some (NewError ''positioned at beginning of file (BOF)'')
      else if EOF v then Some (NewError ''positioned at end of file (EOF)'')
      else None)"

subsection \<open>\<open>StringField\<close>\<close>

text \<open>\<open>Value\<close> returns an \<open>interface{}\<close>: \<open>None\<close> is \<open>nil\<close>, which it returns only
  together with an error.\<close>

definition StringField_Value :: "Vulpo \<Rightarrow> nat \<Rightarrow> string option \<times> error option" where
  "StringField_Value v cField =
     (case checkActive v of
        Some err \<Rightarrow> (None, Some err)
      | None \<Rightarrow>
          (case f4str (the (data v)) cField of
             None \<Rightarrow> (Some [], None)
           | Some cStr \<Rightarrow> (Some (TrimSpace cStr), None)))"

definition StringField_AsString :: "Vulpo \<Rightarrow> nat \<Rightarrow> string \<times> error option" where
  "StringField_AsString v cField =
     (case StringField_Value v cField of
        (_, Some err) \<Rightarrow> ([], Some err)
      | (val, None) \<Rightarrow> (case val of Some str \<Rightarrow> str | None \<Rightarrow> [], None))"






subsection \<open>\<open>DateField\<close>\<close>

definition blankDateValue :: string where
  "blankDateValue = ''        ''"

text \<open>\<open>C.GoStringN(ptr, 8)\<close> reads eight bytes at the pointer.\<close>

definition DateField_AsString :: "Vulpo \<Rightarrow> nat \<Rightarrow> string \<times> error option" where
  "DateField_AsString v cField =
     (case checkActive v of
        Some err \<Rightarrow> ([], Some err)
      | None \<Rightarrow>
          (case f4ptr (the (data v)) cField of
             None \<Rightarrow> ([], Some (errors_New ''failed to get field pointer''))
           | Some ptr \<Rightarrow>
               (if f4len (the (data v)) cField \<noteq> 8
                then ([], Some (fmt_Errorf ''invalid date field length: %d''
                                  [ArgI (f4len (the (data v)) cField)]))
                else if take 8 ptr = blankDateValue \<or> take 8 ptr = [] then ([], None)
                else (take 8 ptr, None))))"

definition DateField_AsTime :: "Vulpo \<Rightarrow> nat \<Rightarrow> Time \<times> error option" where
  "DateField_AsTime v cField =
     (case DateField_AsString v cField of
        (_, Some err) \<Rightarrow> (zeroTime, Some err)
      | (dateStr, None) \<Rightarrow>
          (if dateStr = [] \<or> dateStr = blankDateValue then (zeroTime, None)
           else if length dateStr \<noteq> 8
           then (zeroTime, Some (fmt_Errorf ''invalid date format: expected YYYYMMDD, got %s''
                                   [ArgS dateStr]))
           else case Atoi (take 4 dateStr) of
             None \<Rightarrow> (zeroTime, Some (fmt_Errorf ''invalid year in date %s: %v''
                          [ArgS dateStr, ArgE (NumError ''Atoi'' (take 4 dateStr))]))
           | Some year \<Rightarrow>
           (case Atoi (take 2 (drop 4 dateStr)) of
             None \<Rightarrow> (zeroTime, Some (fmt_Errorf ''invalid month in date %s: %v''
                          [ArgS dateStr, ArgE (NumError ''Atoi'' (take 2 (drop 4 dateStr)))]))
           | Some month \<Rightarrow>
           (case Atoi (take 2 (drop 6 dateStr)) of
             None \<Rightarrow> (zeroTime, Some (fmt_Errorf ''invalid day in date %s: %v''
                          [ArgS dateStr, ArgE (NumError ''Atoi'' (take 2 (drop 6 dateStr)))]))
           | Some day \<Rightarrow>
               (if month < 1 \<or> 12 < month
                then (zeroTime, Some (fmt_Errorf ''invalid month %d in date %s''
                                        [ArgI month, ArgS dateStr]))
                else if day < 1 \<or> 31 < day
                then (zeroTime, Some (fmt_Errorf ''invalid day %d in date %s''
                                        [ArgI day, ArgS dateStr]))
                else (time_Date year month day, None))))))"

section \<open>Scans over the table\<close>

subsection \<open>Why the scan loops end\<close>

text \<open>
  Every scan below is a Go loop \<open>for !v.EOF() { ...; err = v.Next(); if err != nil { break } }\<close>.
  It is a recursive function whose measure is the number of records from the cursor to
  the end of the selected ordering: a \<open>Next\<close> that returns no error has moved the cursor
  one record forward in it.
\<close>

definition remaining :: "Vulpo \<Rightarrow> nat" where
  "remaining v =
     (case data v of
        None \<Rightarrow> 0
      | Some d \<Rightarrow>
          (case cur d of
             AtEOF \<Rightarrow> 0
           | AtBOF \<Rightarrow> Suc (length (recOrder d))
           | AtRow n \<Rightarrow> length (dropWhile (\<lambda>k. k \<noteq> n) (recOrder d))))"

lemma distinct_physicalOrder: "distinct (physicalOrder d)"
  by (simp add: physicalOrder_def)

lemma distinct_recOrder: "distinct (recOrder d)"
  by (simp add: recOrder_def tagOrder_def distinct_physicalOrder split: option.splits)

lemma cellOf_cur [simp]: "cellOf (d\<lparr>cur := c\<rparr>) n j = cellOf d n j"
  by (simp add: cellOf_def)

lemma recOrder_cur [simp]: "recOrder (d\<lparr>cur := c\<rparr>) = recOrder d"
  by (simp add: recOrder_def tagOrder_def physicalOrder_def split: option.splits)

lemma cells_flag_update:
  "k < length rs \<Longrightarrow> cells (rs[i := (rs ! i)\<lparr>deleted := b\<rparr>] ! k) = cells (rs ! k)"
  by (cases "i = k") simp_all

lemma length_rows_setDeleted [simp]: "length (rows (setDeleted b d)) = length (rows d)"
  by (simp add: setDeleted_def split: cursor.splits)

lemma cells_setDeleted:
  "k < length (rows d) \<Longrightarrow> cells (rows (setDeleted b d) ! k) = cells (rows d ! k)"
  by (simp add: setDeleted_def cells_flag_update split: cursor.splits)

lemma cellOf_setDeleted [simp]: "cellOf (setDeleted b d) n j = cellOf d n j"
proof (cases "1 \<le> n \<and> n \<le> length (rows d)")
  case True
  then have "n - 1 < length (rows d)" by arith
  then show ?thesis
    using True by (simp add: cellOf_def cells_setDeleted)
next
  case False
  then show ?thesis by (auto simp: cellOf_def)
qed

lemma recOrder_setDeleted [simp]: "recOrder (setDeleted b d) = recOrder d"
proof -
  have "length (rows (setDeleted b d)) = length (rows d)"
    and "tags (setDeleted b d) = tags d"
    and "tagSelected (setDeleted b d) = tagSelected d"
    by (simp_all add: setDeleted_def split: cursor.splits)
  then show ?thesis
    by (simp add: recOrder_def tagOrder_def physicalOrder_def split: option.splits)
qed

lemma cur_setDeleted [simp]: "cur (setDeleted b d) = cur d"
  by (simp add: setDeleted_def split: cursor.splits)

lemma dropWhile_next:
  assumes "distinct xs" and "dropWhile (\<lambda>k. k \<noteq> n) xs = x # m # rest"
  shows "dropWhile (\<lambda>k. k \<noteq> m) xs = m # rest"
proof -
  have xn: "x = n"
    using assms(2) hd_dropWhile [of "\<lambda>k. k \<noteq> n" xs] by force
  have split: "xs = takeWhile (\<lambda>k. k \<noteq> n) xs @ n # m # rest"
    using assms(2) xn takeWhile_dropWhile_id [of "\<lambda>k. k \<noteq> n" xs] by simp
  then have dist: "distinct (takeWhile (\<lambda>k. k \<noteq> n) xs @ n # m # rest)"
    using assms(1) by simp
  then have "m \<notin> set (takeWhile (\<lambda>k. k \<noteq> n) xs)" and "m \<noteq> n"
    by auto
  then have "dropWhile (\<lambda>k. k \<noteq> m) (takeWhile (\<lambda>k. k \<noteq> n) xs @ n # m # rest) = m # rest"
    by (simp add: dropWhile_append)
  with split show ?thesis by simp
qed

lemma d4skip1_remaining:
  assumes "d4skip1 d = (0, d')"
  shows "remaining \<lparr>data = Some d', fieldDefs = f\<rparr> < remaining \<lparr>data = Some d, fieldDefs = f\<rparr>"
proof (cases "cur d")
  case AtBOF
  then show ?thesis
    using assms
    by (auto simp: d4skip1_def d4top_def remaining_def r4eof_def r4success_def
             split: list.splits)
next
  case AtEOF
  then show ?thesis using assms by (simp add: d4skip1_def r4eof_def)
next
  case (AtRow n)
  show ?thesis
  proof (cases "dropWhile (\<lambda>k. k \<noteq> n) (recOrder d)")
    case Nil
    then show ?thesis using assms AtRow
      by (simp add: d4skip1_def r4eof_def del: dropWhile_eq_Nil_conv)
  next
    case (Cons x ys)
    show ?thesis
    proof (cases ys)
      case Nil
      then show ?thesis using assms AtRow Cons by (simp add: d4skip1_def r4eof_def)
    next
      case (Cons m rest)
      have dw: "dropWhile (\<lambda>k. k \<noteq> n) (recOrder d) = x # m # rest"
        using \<open>dropWhile (\<lambda>k. k \<noteq> n) (recOrder d) = x # ys\<close> Cons by simp
      have d': "d' = d\<lparr>cur := AtRow m\<rparr>"
        using assms AtRow dw by (simp add: d4skip1_def r4success_def)
      have "dropWhile (\<lambda>k. k \<noteq> m) (recOrder d) = m # rest"
        using dropWhile_next [OF distinct_recOrder dw] .
      then show ?thesis
        using AtRow dw d' by (simp add: remaining_def)
    qed
  qed
qed

lemma Next_remaining: "Next v = (None, v') \<Longrightarrow> remaining v' < remaining v"
proof (cases "data v")
  case None
  assume "Next v = (None, v')"
  then show ?thesis using None by (simp add: Next_def)
next
  case (Some d)
  assume n: "Next v = (None, v')"
  obtain rc d' where s: "d4skip1 d = (rc, d')" by (cases "d4skip1 d")
  from n Some s have "rc = 0" and "v' = v\<lparr>data := Some d'\<rparr>"
    by (auto simp: Next_def split: if_splits)
  then show ?thesis
    using d4skip1_remaining [of d d' "fieldDefs v"] s Some
    by (cases v) (simp add: remaining_def)
qed

lemma remaining_d4recall [simp]:
  "remaining (v\<lparr>data := map_option d4recall (data v)\<rparr>) = remaining v"
  by (cases "data v") (simp_all add: remaining_def d4recall_def split: cursor.splits)

subsection \<open>The scans of vulpo.deleted.go\<close>

text \<open>
  Each scan saves \<open>originalPosition := v.Position()\<close> and \<open>originalTag := v.SelectedTag()\<close>
  and defers the function \<open>restoreState\<close>, which runs on every return after it.
\<close>

definition restoreState :: "Vulpo \<Rightarrow> int \<Rightarrow> Tag option \<Rightarrow> Vulpo" where
  "restoreState v originalPosition originalTag =
     (if 0 < originalPosition
      then snd (Goto (snd (SelectTag v originalTag)) originalPosition)
      else snd (SelectTag v originalTag))"

function CountDeleted_loop :: "Vulpo \<Rightarrow> int \<Rightarrow> int \<times> Vulpo" where
  "CountDeleted_loop v count =
     (if EOF v then (count, v)
      else case Next v of
             (Some err, v') \<Rightarrow> (if Deleted v then count + 1 else count, v')
           | (None, v') \<Rightarrow> CountDeleted_loop v' (if Deleted v then count + 1 else count))"
  by pat_completeness auto
termination
  by (relation "measure (\<lambda>(v, count). remaining v)") (auto simp: Next_remaining)

definition CountDeleted :: "Vulpo \<Rightarrow> (int \<times> error option) \<times> Vulpo" where
  "CountDeleted v =
     (if \<not> Active v then ((0, Some (NewError ''database not open'')), v)
      else case SelectTag v None of
        (Some err, v1) \<Rightarrow> ((0, Some err), restoreState v1 (Position v) (SelectedTag v))
      | (None, v1) \<Rightarrow>
          (case First v1 of
             (Some err, v2) \<Rightarrow>
               ((0, Some (NewErrorf ''failed to go to first record: %v'' [ArgE err])),
                restoreState v2 (Position v) (SelectedTag v))
           | (None, v2) \<Rightarrow>
               (case CountDeleted_loop v2 0 of
                  (count, v3) \<Rightarrow>
                    ((count, None), restoreState v3 (Position v) (SelectedTag v)))))"

function CountActive_loop :: "Vulpo \<Rightarrow> int \<Rightarrow> int \<times> Vulpo" where
  "CountActive_loop v count =
     (if EOF v then (count, v)
      else case Next v of
             (Some err, v') \<Rightarrow> (if \<not> Deleted v then count + 1 else count, v')
           | (None, v') \<Rightarrow> CountActive_loop v' (if \<not> Deleted v then count + 1 else count))"
  by pat_completeness auto
termination
  by (relation "measure (\<lambda>(v, count). remaining v)") (auto simp: Next_remaining)

definition CountActive :: "Vulpo \<Rightarrow> (int \<times> error option) \<times> Vulpo" where
  "CountActive v =
     (if \<not> Active v then ((0, Some (NewError ''database not open'')), v)
      else case SelectTag v None of
        (Some err, v1) \<Rightarrow> ((0, Some err), restoreState v1 (Position v) (SelectedTag v))
      | (None, v1) \<Rightarrow>
          (case First v1 of
             (Some err, v2) \<Rightarrow>
               ((0, Some (NewErrorf ''failed to go to first record: %v'' [ArgE err])),
                restoreState v2 (Position v) (SelectedTag v))
           | (None, v2) \<Rightarrow>
               (case CountActive_loop v2 0 of
                  (count, v3) \<Rightarrow>
                    ((count, None), restoreState v3 (Position v) (SelectedTag v)))))"

record DeletedRecordInfo =
  RecordNumber :: int
  IsDeleted :: bool

function ListDeletedRecords_loop ::
  "Vulpo \<Rightarrow> DeletedRecordInfo list \<Rightarrow> DeletedRecordInfo list \<times> Vulpo" where
  "ListDeletedRecords_loop v deletedRecords =
     (if EOF v then (deletedRecords, v)
      else case Next v of
             (Some err, v') \<Rightarrow>
               (if Deleted v
                then deletedRecords @ [\<lparr>RecordNumber = Position v, IsDeleted = True\<rparr>]
                else deletedRecords, v')
           | (None, v') \<Rightarrow>
               ListDeletedRecords_loop v'
                 (if Deleted v
                  then deletedRecords @ [\<lparr>RecordNumber = Position v, IsDeleted = True\<rparr>]
                  else deletedRecords))"
  by pat_completeness auto
termination
  by (relation "measure (\<lambda>(v, acc). remaining v)") (auto simp: Next_remaining)

definition ListDeletedRecords :: "Vulpo \<Rightarrow> (DeletedRecordInfo list \<times> error option) \<times> Vulpo" where
  "ListDeletedRecords v =
     (if \<not> Active v then (([], Some (NewError ''database not open'')), v)
      else case SelectTag v None of
        (Some err, v1) \<Rightarrow> (([], Some err), restoreState v1 (Position v) (SelectedTag v))
      | (None, v1) \<Rightarrow>
          (case First v1 of
             (Some err, v2) \<Rightarrow>
               (([], Some (NewErrorf ''failed to go to first record: %v'' [ArgE err])),
                restoreState v2 (Position v) (SelectedTag v))
           | (None, v2) \<Rightarrow>
               (case ListDeletedRecords_loop v2 [] of
                  (deletedRecords, v3) \<Rightarrow>
                    ((deletedRecords, None), restoreState v3 (Position v) (SelectedTag v)))))"

text \<open>A callback is modelled by the error it returns for each record number; it does
  not touch the table handle.\<close>

function ForEachDeletedRecord_loop ::
  "(int \<Rightarrow> error option) \<Rightarrow> Vulpo \<Rightarrow> error option \<times> Vulpo" where
  "ForEachDeletedRecord_loop callback v =
     (if EOF v then (None, v)
      else case (if Deleted v then callback (Position v) else None) of
        Some err \<Rightarrow> (Some err, v)
      | None \<Rightarrow>
          (case Next v of
             (Some err, v') \<Rightarrow> (None, v')
           | (None, v') \<Rightarrow> ForEachDeletedRecord_loop callback v'))"
  by pat_completeness auto
termination
  by (relation "measure (\<lambda>(callback, v). remaining v)") (auto simp: Next_remaining)

definition ForEachDeletedRecord ::
  "(int \<Rightarrow> error option) \<Rightarrow> Vulpo \<Rightarrow> error option \<times> Vulpo" where
  "ForEachDeletedRecord callback v =
     (if \<not> Active v then (Some (NewError ''database not open''), v)
      else case SelectTag v None of
        (Some err, v1) \<Rightarrow> (Some err, restoreState v1 (Position v) (SelectedTag v))
      | (None, v1) \<Rightarrow>
          (case First v1 of
             (Some err, v2) \<Rightarrow>
               (Some (NewErrorf ''failed to go to first record: %v'' [ArgE err]),
                restoreState v2 (Position v) (SelectedTag v))
           | (None, v2) \<Rightarrow>
               (case ForEachDeletedRecord_loop callback v2 of
                  (err, v3) \<Rightarrow> (err, restoreState v3 (Position v) (SelectedTag v)))))"

function RecallAllDeleted_loop :: "Vulpo \<Rightarrow> int \<Rightarrow> int \<times> Vulpo" where
  "RecallAllDeleted_loop v count =
     (if EOF v then (count, v)
      else case Next (if Deleted v then v\<lparr>data := map_option d4recall (data v)\<rparr> else v) of
             (Some err, v') \<Rightarrow> (if Deleted v then count + 1 else count, v')
           | (None, v') \<Rightarrow> RecallAllDeleted_loop v' (if Deleted v then count + 1 else count))"
  by pat_completeness auto
termination
proof (relation "measure (\<lambda>(v, count). remaining v)", goal_cases)
  case 1
  show ?case by simp
next
  case (2 v count x y)
  then show ?case
    using Next_remaining [of "if Deleted v then v\<lparr>data := map_option d4recall (data v)\<rparr> else v" y]
    by (auto split: if_splits)
qed

definition RecallAllDeleted :: "Vulpo \<Rightarrow> (int \<times> error option) \<times> Vulpo" where
  "RecallAllDeleted v =
     (if \<not> Active v then ((0, Some (NewError ''database not open'')), v)
      else case SelectTag v None of
        (Some err, v1) \<Rightarrow> ((0, Some err), restoreState v1 (Position v) (SelectedTag v))
      | (None, v1) \<Rightarrow>
          (case First v1 of
             (Some err, v2) \<Rightarrow>
               ((0, Some (NewErrorf ''failed to go to first record: %v'' [ArgE err])),
                restoreState v2 (Position v) (SelectedTag v))
           | (None, v2) \<Rightarrow>
               (case RecallAllDeleted_loop v2 0 of
                  (count, v3) \<Rightarrow>
                    ((count, None), restoreState v3 (Position v) (SelectedTag v)))))"

section \<open>Field lookup (vulpo.go, fields.go)\<close>

text \<open>
  \<open>strings.ToLower\<close>, like \<open>strings.ToUpper\<close>: \<open>A\<close>..\<open>Z\<close> to \<open>a\<close>..\<open>z\<close> when every byte is
  ASCII, and the parameter \<open>unicodeLower\<close> otherwise.
\<close>

definition lowerASCII :: "char \<Rightarrow> char" where
  "lowerASCII c =
     (case map_of (zip ''ABCDEFGHIJKLMNOPQRSTUVWXYZ'' ''abcdefghijklmnopqrstuvwxyz'') c of
        Some l \<Rightarrow> l
      | None \<Rightarrow> c)"

definition ToLower :: "(string \<Rightarrow> string) \<Rightarrow> string \<Rightarrow> string" where
  "ToLower unicodeLower s = (if isASCII s then map lowerASCII s else unicodeLower s)"

text \<open>
  \<open>readFieldDefs\<close> stores \<open>indices[strings.ToLower(fieldname)] = i\<close> for each column in
  turn, so of two columns with one lower-cased name the later one is found.
  \<open>FieldByName\<close> gives the column's place in \<open>fieldDefs\<close>; \<open>None\<close> is \<open>nil\<close>.
\<close>

definition FieldByName :: "(string \<Rightarrow> string) \<Rightarrow> Vulpo \<Rightarrow> string \<Rightarrow> nat option" where
  "FieldByName unicodeLower v nm =
     (case filter (\<lambda>i. ToLower unicodeLower (fieldname (fieldDefs v ! i)) = ToLower unicodeLower nm)
             (rev [0..<length (fieldDefs v)]) of
        [] \<Rightarrow> None
      | i # _ \<Rightarrow> Some i)"

definition FieldReader :: "(string \<Rightarrow> string) \<Rightarrow> Vulpo \<Rightarrow> string \<Rightarrow> nat option" where
  "FieldReader unicodeLower v nm =
     (if \<not> Active v then None else FieldByName unicodeLower v nm)"

definition getFieldReader ::
  "(string \<Rightarrow> string) \<Rightarrow> Vulpo \<Rightarrow> string \<Rightarrow> nat option \<times> error option" where
  "getFieldReader unicodeLower v fieldName =
     (case FieldByName unicodeLower v fieldName of
        None \<Rightarrow> (None, Some (NewErrorf ''field '%s' not found'' [ArgS fieldName]))
      | Some _ \<Rightarrow>
          (case FieldReader unicodeLower v fieldName of
             None \<Rightarrow> (None, Some (NewErrorf ''failed to create field reader for '%s''
                                      [ArgS fieldName]))
           | Some fieldReader \<Rightarrow> (Some fieldReader, None)))"

section \<open>Expression search (expression filter file)\<close>

text \<open>
  \<open>expr4parseLow\<close> is the engine's expression parser, a parameter: it gives the compiled
  expression, or \<open>None\<close> for a null pointer. \<open>Free\<close> releases the engine's memory and has
  no counterpart here. \<open>NewExprFilter\<close> returns a filter or an error; the scans' case
  for neither cannot occur.
\<close>

record ExprFilter =
  expr :: "EXPR4 option"
  exprText :: string

definition NewExprFilter ::
  "(DATA4 \<Rightarrow> string \<Rightarrow> EXPR4 option) \<Rightarrow> Vulpo \<Rightarrow> string \<Rightarrow> ExprFilter option \<times> error option"
  where
  "NewExprFilter expr4parseLow v expression =
     (case data v of
        None \<Rightarrow> (None, Some (NewError ''database not open''))
      | Some d \<Rightarrow>
          (case expr4parseLow d expression of
             None \<Rightarrow> (None, Some (NewErrorf ''failed to parse expression: %s''
                                      [ArgS expression]))
           | Some e \<Rightarrow> (Some \<lparr>expr = Some e, exprText = expression\<rparr>, None)))"

text \<open>\<open>Evaluate\<close> reads the current record of the table the filter was made for, the
  handle \<open>v\<close>, which is open wherever the scans call it.\<close>

definition Evaluate :: "ExprFilter \<Rightarrow> Vulpo \<Rightarrow> bool \<times> error option" where
  "Evaluate ef v =
     (case expr ef of
        None \<Rightarrow> (False, Some (NewError ''expression filter is not initialized''))
      | Some e \<Rightarrow> (case data v of None \<Rightarrow> (False, None)
                                | Some d \<Rightarrow> (expr4true e d \<noteq> 0, None)))"

record ExprSearchOptions =
  esMaxResults :: int
  esUseIndex :: bool

text \<open>\<open>FieldReaders\<close> maps a column name to its reader, here the column's place.\<close>

record ExprMatch =
  emRecordNumber :: int
  FieldReaders :: "string \<rightharpoonup> nat"

record ExprSearchResult =
  Expression :: string
  esMatches :: "ExprMatch list"
  esTotalScanned :: int
  esTotalMatched :: int

text \<open>The loop over \<open>i := 0; i < v.FieldCount(); i++\<close> that fills \<open>fieldReaders\<close>.\<close>

fun fieldReadersFrom ::
  "(string \<Rightarrow> string) \<Rightarrow> Vulpo \<Rightarrow> FieldDef list \<Rightarrow> (string \<rightharpoonup> nat) \<Rightarrow> (string \<rightharpoonup> nat)" where
  "fieldReadersFrom unicodeLower v [] fieldReaders = fieldReaders"
| "fieldReadersFrom unicodeLower v (fieldDef # rest) fieldReaders =
     fieldReadersFrom unicodeLower v rest
       (case getFieldReader unicodeLower v (fieldname fieldDef) of
          (Some fieldReader, None) \<Rightarrow> fieldReaders(fieldname fieldDef \<mapsto> fieldReader)
        | _ \<Rightarrow> fieldReaders)"

definition makeFieldReaders :: "(string \<Rightarrow> string) \<Rightarrow> Vulpo \<Rightarrow> (string \<rightharpoonup> nat)" where
  "makeFieldReaders unicodeLower v = fieldReadersFrom unicodeLower v (fieldDefs v) Map.empty"

text \<open>\<open>result.TotalScanned++\<close>, and the statements that record a match.\<close>

definition scanned :: "ExprSearchResult \<Rightarrow> ExprSearchResult" where
  "scanned result = result\<lparr>esTotalScanned := esTotalScanned result + 1\<rparr>"

definition appendMatch ::
  "(string \<Rightarrow> string) \<Rightarrow> Vulpo \<Rightarrow> ExprSearchResult \<Rightarrow> ExprSearchResult" where
  "appendMatch unicodeLower v result =
     result\<lparr>esMatches := esMatches result @
                [\<lparr>emRecordNumber = Position v,
                  FieldReaders = makeFieldReaders unicodeLower v\<rparr>],
            esTotalMatched := esTotalMatched result + 1\<rparr>"

text \<open>
  The loops return \<open>Inl err\<close> where the Go loop returns from the function with an
  error, and \<open>Inr\<close> where it runs off its end or breaks.
\<close>

function SearchByExpression_loop ::
  "(string \<Rightarrow> string) \<Rightarrow> ExprFilter \<Rightarrow> ExprSearchOptions \<Rightarrow> Vulpo \<Rightarrow> ExprSearchResult
     \<Rightarrow> (error + ExprSearchResult) \<times> Vulpo" where
  "SearchByExpression_loop unicodeLower ef options v result =
     (if EOF v then (Inr result, v)
      else case Evaluate ef v of
        (_, Some err) \<Rightarrow>
          (Inl (NewErrorf ''failed to evaluate expression: %v'' [ArgE err]), v)
      | (matches, None) \<Rightarrow>
          (if matches \<and> 0 < esMaxResults options
                \<and> esMaxResults options \<le> esTotalMatched result + 1
           then (Inr (appendMatch unicodeLower v (scanned result)), v)
           else case Next v of
             (Some err, v') \<Rightarrow>
               (Inr (if matches then appendMatch unicodeLower v (scanned result)
                     else scanned result), v')
           | (None, v') \<Rightarrow>
               SearchByExpression_loop unicodeLower ef options v'
                 (if matches then appendMatch unicodeLower v (scanned result)
                  else scanned result)))"
  by pat_completeness auto
termination
  by (relation "measure (\<lambda>(u, ef, options, v, result). remaining v)")
     (auto simp: Next_remaining)

text \<open>The deferred function of the three expression scans restores the position
  only.\<close>

definition restorePosition :: "Vulpo \<Rightarrow> int \<Rightarrow> Vulpo" where
  "restorePosition v originalPosition =
     (if 0 < originalPosition then snd (Goto v originalPosition) else v)"

definition SearchByExpression ::
  "(string \<Rightarrow> string) \<Rightarrow> (DATA4 \<Rightarrow> string \<Rightarrow> EXPR4 option) \<Rightarrow> Vulpo \<Rightarrow> string
     \<Rightarrow> ExprSearchOptions option \<Rightarrow> (ExprSearchResult option \<times> error option) \<times> Vulpo" where
  "SearchByExpression unicodeLower expr4parseLow v expression options =
     (if \<not> Active v then ((None, Some (NewError ''database not open'')), v)
      else case NewExprFilter expr4parseLow v expression of
        (_, Some err) \<Rightarrow>
          ((None, Some (NewErrorf ''failed to create expression filter: %v'' [ArgE err])), v)
      | (None, None) \<Rightarrow> ((None, None), v)
      | (Some ef, None) \<Rightarrow>
          (case First v of
             (Some err, v1) \<Rightarrow>
               ((None, Some (NewErrorf ''failed to go to first record: %v'' [ArgE err])),
                restorePosition v1 (Position v))
           | (None, v1) \<Rightarrow>
               (case SearchByExpression_loop unicodeLower ef
                       (case options of None \<Rightarrow> \<lparr>esMaxResults = 0, esUseIndex = False\<rparr>
                                      | Some opts \<Rightarrow> opts)
                       v1
                       \<lparr>Expression = expression, esMatches = [], esTotalScanned = 0,
                        esTotalMatched = 0\<rparr> of
                  (Inl err, v2) \<Rightarrow> ((None, Some err), restorePosition v2 (Position v))
                | (Inr result, v2) \<Rightarrow>
                    ((Some result, None), restorePosition v2 (Position v)))))"

function CountByExpression_loop ::
  "ExprFilter \<Rightarrow> Vulpo \<Rightarrow> int \<Rightarrow> (error + int) \<times> Vulpo" where
  "CountByExpression_loop ef v count =
     (if EOF v then (Inr count, v)
      else case Evaluate ef v of
        (_, Some err) \<Rightarrow>
          (Inl (NewErrorf ''failed to evaluate expression: %v'' [ArgE err]), v)
      | (matches, None) \<Rightarrow>
          (case Next v of
             (Some err, v') \<Rightarrow> (Inr (if matches then count + 1 else count), v')
           | (None, v') \<Rightarrow>
               CountByExpression_loop ef v' (if matches then count + 1 else count)))"
  by pat_completeness auto
termination
  by (relation "measure (\<lambda>(ef, v, count). remaining v)") (auto simp: Next_remaining)

definition CountByExpression ::
  "(DATA4 \<Rightarrow> string \<Rightarrow> EXPR4 option) \<Rightarrow> Vulpo \<Rightarrow> string \<Rightarrow> (int \<times> error option) \<times> Vulpo" where
  "CountByExpression expr4parseLow v expression =
     (if \<not> Active v then ((0, Some (NewError ''database not open'')), v)
      else case NewExprFilter expr4parseLow v expression of
        (_, Some err) \<Rightarrow>
          ((0, Some (NewErrorf ''failed to create expression filter: %v'' [ArgE err])), v)
      | (None, None) \<Rightarrow> ((0, None), v)
      | (Some ef, None) \<Rightarrow>
          (case First v of
             (Some err, v1) \<Rightarrow>
               ((0, Some (NewErrorf ''failed to go to first record: %v'' [ArgE err])),
                restorePosition v1 (Position v))
           | (None, v1) \<Rightarrow>
               (case CountByExpression_loop ef v1 0 of
                  (Inl err, v2) \<Rightarrow> ((0, Some err), restorePosition v2 (Position v))
                | (Inr count, v2) \<Rightarrow> ((count, None), restorePosition v2 (Position v)))))"

text \<open>The callback of \<open>ForEachExpressionMatch\<close> receives the readers of the matching
  record, through which it can read the table at that record: it is modelled by the
  error it returns for the handle at that record and the readers. It does not change
  the handle.\<close>

function ForEachExpressionMatch_loop ::
  "(string \<Rightarrow> string) \<Rightarrow> ExprFilter \<Rightarrow> (Vulpo \<Rightarrow> (string \<rightharpoonup> nat) \<Rightarrow> error option)
     \<Rightarrow> Vulpo \<Rightarrow> error option \<times> Vulpo" where
  "ForEachExpressionMatch_loop unicodeLower ef callback v =
     (if EOF v then (None, v)
      else case Evaluate ef v of
        (_, Some err) \<Rightarrow>
          (Some (NewErrorf ''failed to evaluate expression: %v'' [ArgE err]), v)
      | (matches, None) \<Rightarrow>
          (case (if matches then callback v (makeFieldReaders unicodeLower v) else None) of
             Some err \<Rightarrow> (Some err, v)
           | None \<Rightarrow>
               (case Next v of
                  (Some err, v') \<Rightarrow> (None, v')
                | (None, v') \<Rightarrow> ForEachExpressionMatch_loop unicodeLower ef callback v')))"
  by pat_completeness auto
termination
  by (relation "measure (\<lambda>(u, ef, callback, v). remaining v)") (auto simp: Next_remaining)

definition ForEachExpressionMatch ::
  "(string \<Rightarrow> string) \<Rightarrow> (DATA4 \<Rightarrow> string \<Rightarrow> EXPR4 option) \<Rightarrow> Vulpo \<Rightarrow> string
     \<Rightarrow> (Vulpo \<Rightarrow> (string \<rightharpoonup> nat) \<Rightarrow> error option) \<Rightarrow> error option \<times> Vulpo" where
  "ForEachExpressionMatch unicodeLower expr4parseLow v expression callback =
     (if \<not> Active v then (Some (NewError ''database not open''), v)
      else case NewExprFilter expr4parseLow v expression of
        (_, Some err) \<Rightarrow>
          (Some (NewErrorf ''failed to create expression filter: %v'' [ArgE err]), v)
      | (None, None) \<Rightarrow> (None, v)
      | (Some ef, None) \<Rightarrow>
          (case First v of
             (Some err, v1) \<Rightarrow>
               (Some (NewErrorf ''failed to go to first record: %v'' [ArgE err]),
                restorePosition v1 (Position v))
           | (None, v1) \<Rightarrow>
               (case ForEachExpressionMatch_loop unicodeLower ef callback v1 of
                  (err, v2) \<Rightarrow> (err, restorePosition v2 (Position v)))))"

section \<open>Regex search (regex search file)\<close>

text \<open>
  A compiled \<open>*regexp.Regexp\<close> is used through \<open>FindAllStringIndex(s, -1)\<close> only, so it is
  modelled as that function: the byte spans of the matches in \<open>s\<close>, none when there is no
  match. \<open>regexp.Compile\<close> is the parameter \<open>Compile\<close>, giving the compiled pattern or
  the error.
\<close>

type_synonym Regexp = "string \<Rightarrow> (int \<times> int) list"

record RegexSearchOptions =
  CaseInsensitive :: bool
  MaxResults :: int
  UseIndex :: bool
  IndexField :: string

record RegexMatch =
  rmRecordNumber :: int
  FieldValue :: string
  rmMatches :: "(int \<times> int) list"
  rmFieldReader :: nat

record RegexSearchResult =
  Pattern :: string
  Matches :: "RegexMatch list"
  TotalScanned :: int
  TotalMatched :: int

text \<open>The characters both \<open>switch\<close> statements list. They are ASCII, and no byte of a
  multi-byte UTF-8 rune is ASCII, so ranging over the bytes finds the same first one as
  the Go loops, which range over the runes.\<close>

definition metachars :: "char list" where
  "metachars =
     [CHR ''.'', CHR ''*'', CHR ''+'', CHR ''?'', CHR ''['', CHR '']'', CHR ''('', CHR '')'',
      CHR ''{'', CHR ''}'', CHR ''|'', CHR 0x5C, CHR ''$'']"

fun isSimplePrefix_from :: "nat \<Rightarrow> string \<Rightarrow> bool" where
  "isSimplePrefix_from i [] = True"
| "isSimplePrefix_from i (r # rs) =
     (if 10 < i then True
      else if r \<in> set metachars then 0 < i
      else isSimplePrefix_from (Suc i) rs)"

definition isSimplePrefix :: "string \<Rightarrow> bool" where
  "isSimplePrefix pattern =
     (if length pattern < 2 \<or> hd pattern \<noteq> CHR ''^'' then False
      else isSimplePrefix_from 0 (tl pattern))"

fun extractPrefix_from :: "string \<Rightarrow> string \<Rightarrow> string" where
  "extractPrefix_from prefix [] = prefix"
| "extractPrefix_from prefix (r # rs) =
     (if r \<in> set metachars then prefix else extractPrefix_from (prefix @ [r]) rs)"

definition extractPrefix :: "string \<Rightarrow> string" where
  "extractPrefix pattern =
     (if length pattern < 2 \<or> hd pattern \<noteq> CHR ''^'' then []
      else extractPrefix_from [] (tl pattern))"

definition findTagForField :: "Vulpo \<Rightarrow> string \<Rightarrow> Tag option" where
  "findTagForField v fieldName =
     (case find (\<lambda>tag. name tag = fieldName \<or> name tag = fieldName @ ''_IDX'') (ListTags v) of
        Some tag \<Rightarrow> Some tag
      | None \<Rightarrow>
          find (\<lambda>tag. length fieldName < length (name tag) \<and>
                       (take (length fieldName) (name tag) = fieldName \<or>
                        drop (length (name tag) - length fieldName) (name tag) = fieldName))
            (ListTags v))"

text \<open>\<open>result.TotalScanned++\<close>, and the statements that record a match. The reader of
  a Character column is a \<open>StringField\<close>, and \<open>RegexSearch\<close> admits no other column.\<close>

definition scannedRegex :: "RegexSearchResult \<Rightarrow> RegexSearchResult" where
  "scannedRegex result = result\<lparr>TotalScanned := TotalScanned result + 1\<rparr>"

definition recordRegexMatch ::
  "Regexp \<Rightarrow> Vulpo \<Rightarrow> nat \<Rightarrow> RegexSearchResult \<Rightarrow> RegexSearchResult" where
  "recordRegexMatch compiled v fieldReader result =
     (if compiled (fst (StringField_AsString v fieldReader)) \<noteq> []
      then result\<lparr>Matches := Matches result @
                     [\<lparr>rmRecordNumber = Position v,
                       FieldValue = fst (StringField_AsString v fieldReader),
                       rmMatches = compiled (fst (StringField_AsString v fieldReader)),
                       rmFieldReader = fieldReader\<rparr>]\<rparr>
      else result)"

definition withinMaxResults :: "RegexSearchOptions \<Rightarrow> RegexSearchResult \<Rightarrow> bool" where
  "withinMaxResults options result =
     (MaxResults options = 0 \<or> int (length (Matches result)) < MaxResults options)"

function performIndexPrefixSearch_loop ::
  "(string \<Rightarrow> string) \<Rightarrow> string \<Rightarrow> string \<Rightarrow> Regexp \<Rightarrow> RegexSearchOptions \<Rightarrow> Vulpo
     \<Rightarrow> RegexSearchResult \<Rightarrow> RegexSearchResult \<times> Vulpo" where
  "performIndexPrefixSearch_loop unicodeLower fieldName prefix compiled options v result =
     (if EOF v \<or> \<not> withinMaxResults options result then (result, v)
      else case getFieldReader unicodeLower v fieldName of
        (Some fieldReader, None) \<Rightarrow>
          (if length (fst (StringField_AsString v fieldReader)) < length prefix \<or>
              take (length prefix) (fst (StringField_AsString v fieldReader)) \<noteq> prefix
           then (scannedRegex result, v)
           else case Next v of
             (Some err, v') \<Rightarrow>
               (recordRegexMatch compiled v fieldReader (scannedRegex result), v')
           | (None, v') \<Rightarrow>
               performIndexPrefixSearch_loop unicodeLower fieldName prefix compiled options v'
                 (recordRegexMatch compiled v fieldReader (scannedRegex result)))
      | _ \<Rightarrow> (scannedRegex result, v))"
  by pat_completeness auto
termination
  by (relation "measure (\<lambda>(u, fieldName, prefix, compiled, options, v, result). remaining v)")
     (auto simp: Next_remaining)

text \<open>\<open>io\<close> is the engine failure code \<open>d4seek\<close> takes. The deferred \<open>restoreState\<close> is
  registered once the tag is selected.\<close>

definition performIndexPrefixSearch ::
  "int \<Rightarrow> (string \<Rightarrow> string) \<Rightarrow> Vulpo \<Rightarrow> string \<Rightarrow> string \<Rightarrow> Regexp \<Rightarrow> RegexSearchOptions
     \<Rightarrow> RegexSearchResult \<Rightarrow> (bool \<times> RegexSearchResult) \<times> Vulpo" where
  "performIndexPrefixSearch io unicodeLower v fieldName prefix compiled options result =
     (case findTagForField v fieldName of
        None \<Rightarrow> ((False, result), v)
      | Some tag \<Rightarrow>
          (case SelectTag v (Some tag) of
             (Some err, v1) \<Rightarrow> ((False, result), v1)
           | (None, v1) \<Rightarrow>
               (case Seek io v1 prefix of
                  ((_, Some err), v2) \<Rightarrow>
                    ((False, result), restoreState v2 (Position v) (SelectedTag v))
                | ((seekResult, None), v2) \<Rightarrow>
                    (if \<not> IsPositioned seekResult
                     then ((True, result), restoreState v2 (Position v) (SelectedTag v))
                     else case performIndexPrefixSearch_loop unicodeLower fieldName prefix
                                 compiled options v2 result of
                       (result', v3) \<Rightarrow>
                         ((True, result'),
                          restoreState v3 (Position v) (SelectedTag v))))))"

definition tryIndexOptimization ::
  "int \<Rightarrow> (string \<Rightarrow> string) \<Rightarrow> Vulpo \<Rightarrow> string \<Rightarrow> string \<Rightarrow> Regexp \<Rightarrow> RegexSearchOptions
     \<Rightarrow> RegexSearchResult \<Rightarrow> (bool \<times> RegexSearchResult) \<times> Vulpo" where
  "tryIndexOptimization io unicodeLower v fieldName pattern compiled options result =
     (if isSimplePrefix pattern \<and> \<not> CaseInsensitive options \<and> 0 < length (extractPrefix pattern)
      then performIndexPrefixSearch io unicodeLower v fieldName (extractPrefix pattern)
             compiled options result
      else ((False, result), v))"

function performFullRegexScan_loop ::
  "(string \<Rightarrow> string) \<Rightarrow> string \<Rightarrow> Regexp \<Rightarrow> RegexSearchOptions \<Rightarrow> Vulpo
     \<Rightarrow> RegexSearchResult \<Rightarrow> (error option \<times> RegexSearchResult) \<times> Vulpo" where
  "performFullRegexScan_loop unicodeLower fieldName compiled options v result =
     (if EOF v \<or> \<not> withinMaxResults options result then ((None, result), v)
      else case getFieldReader unicodeLower v fieldName of
        (Some fieldReader, None) \<Rightarrow>
          (case Next v of
             (Some err, v') \<Rightarrow>
               ((None, recordRegexMatch compiled v fieldReader (scannedRegex result)), v')
           | (None, v') \<Rightarrow>
               performFullRegexScan_loop unicodeLower fieldName compiled options v'
                 (recordRegexMatch compiled v fieldReader (scannedRegex result)))
      | (_, err) \<Rightarrow> ((err, scannedRegex result), v))"
  by pat_completeness auto
termination
  by (relation "measure (\<lambda>(u, fieldName, compiled, options, v, result). remaining v)")
     (auto simp: Next_remaining)

definition performFullRegexScan ::
  "(string \<Rightarrow> string) \<Rightarrow> Vulpo \<Rightarrow> string \<Rightarrow> Regexp \<Rightarrow> RegexSearchOptions
     \<Rightarrow> RegexSearchResult \<Rightarrow> (error option \<times> RegexSearchResult) \<times> Vulpo" where
  "performFullRegexScan unicodeLower v fieldName compiled options result =
     (case First v of
        (Some err, v1) \<Rightarrow> ((Some err, result), restorePosition v1 (Position v))
      | (None, v1) \<Rightarrow>
          (case performFullRegexScan_loop unicodeLower fieldName compiled options v1 result of
             (r, v2) \<Rightarrow> (r, restorePosition v2 (Position v))))"

definition defaultOptions :: "string \<Rightarrow> RegexSearchOptions option \<Rightarrow> RegexSearchOptions" where
  "defaultOptions fieldName options =
     (case options of
        None \<Rightarrow> \<lparr>CaseInsensitive = False, MaxResults = 0, UseIndex = True,
                 IndexField = fieldName\<rparr>
      | Some opts \<Rightarrow> opts)"

definition RegexSearch ::
  "int \<Rightarrow> (string \<Rightarrow> string) \<Rightarrow> (string \<Rightarrow> error + Regexp) \<Rightarrow> Vulpo \<Rightarrow> string \<Rightarrow> string
     \<Rightarrow> RegexSearchOptions option \<Rightarrow> (RegexSearchResult option \<times> error option) \<times> Vulpo" where
  "RegexSearch io unicodeLower Compile v fieldName pattern options =
     (if \<not> Active v then ((None, Some (NewError ''database not open'')), v)
      else case FieldByName unicodeLower v fieldName of
        None \<Rightarrow> ((None, Some (NewErrorf ''field '%s' not found'' [ArgS fieldName])), v)
      | Some fieldDef \<Rightarrow>
          (if fieldtype (fieldDefs v ! fieldDef) \<noteq> FTCharacter
           then ((None, Some (NewErrorf ''field '%s' is not a character field (type: %s)''
                                [ArgS fieldName, ArgT (fieldtype (fieldDefs v ! fieldDef))])), v)
           else case Compile ((if CaseInsensitive (defaultOptions fieldName options)
                               then ''(?i)'' else []) @ pattern) of
             Inl err \<Rightarrow>
               ((None, Some (NewErrorf ''invalid regex pattern '%s': %v''
                               [ArgS pattern, ArgE err])), v)
           | Inr compiledPattern \<Rightarrow>
               (case (if UseIndex (defaultOptions fieldName options)
                      then tryIndexOptimization io unicodeLower v fieldName pattern
                             compiledPattern (defaultOptions fieldName options)
                             \<lparr>Pattern = pattern, Matches = [], TotalScanned = 0,
                              TotalMatched = 0\<rparr>
                      else ((False, \<lparr>Pattern = pattern, Matches = [], TotalScanned = 0,
                                     TotalMatched = 0\<rparr>), v)) of
                  ((True, result), v1) \<Rightarrow>
                    ((Some (result\<lparr>TotalMatched := int (length (Matches result))\<rparr>), None), v1)
                | ((False, result), v1) \<Rightarrow>
                    (case performFullRegexScan unicodeLower v1 fieldName compiledPattern
                            (defaultOptions fieldName options) result of
                       ((Some err, _), v2) \<Rightarrow> ((None, Some err), v2)
                     | ((None, result'), v2) \<Rightarrow>
                         ((Some (result'\<lparr>TotalMatched := int (length (Matches result'))\<rparr>),
                           None), v2)))))"

section \<open>A table to evaluate on\<close>

text \<open>
  Three records with a Character column \<open>NAME\<close> and a Date column \<open>BORN\<close>; the second
  record is flagged deleted; a tag on each column. \<open>demo\<close> is positioned at record 1,
  \<open>demoAt n\<close> at record \<open>n\<close>, \<open>demoBOF\<close> before the first record, and \<open>demoClosed\<close> is a
  handle with no table open.
\<close>

definition demoRows :: "row list" where
  "demoRows =
     [\<lparr>deleted = False, cells = [''  42  '', ''2024+1+1'']\<rparr>,
      \<lparr>deleted = True, cells = [''      '', ''        '']\<rparr>,
      \<lparr>deleted = False, cells = ['' yEs  '', ''20240229'']\<rparr>]"

definition demoFields :: "FieldDef list" where
  "demoFields =
     [\<lparr>fieldname = ''NAME'', fieldtype = FTCharacter\<rparr>,
      \<lparr>fieldname = ''BORN'', fieldtype = FTDate\<rparr>]"

definition demoTable :: "cursor \<Rightarrow> nat option \<Rightarrow> Vulpo" where
  "demoTable c t =
     \<lparr>data = Some \<lparr>rows = demoRows, cur = c,
                    tags = [\<lparr>tagName = ''NAME'', keyField = 0\<rparr>,
                            \<lparr>tagName = ''BORN'', keyField = 1\<rparr>],
                    tagSelected = t\<rparr>,
      fieldDefs = demoFields\<rparr>"

definition demo :: Vulpo where
  "demo = demoTable (AtRow 1) None"

definition demoAt :: "nat \<Rightarrow> Vulpo" where
  "demoAt n = demoTable (AtRow n) None"

definition demoBOF :: Vulpo where
  "demoBOF = demoTable AtBOF None"

definition demoClosed :: Vulpo where
  "demoClosed = \<lparr>data = None, fieldDefs = []\<rparr>"

lemmas demo_defs =
  demo_def demoAt_def demoBOF_def demoClosed_def demoTable_def demoRows_def demoFields_def

lemmas cursor_defs =
  Active_def BOF_def EOF_def d4bof_def d4eof_def Position_def d4recNo_def

subsection \<open>\<open>strings.TrimSpace\<close> is idempotent\<close>

text \<open>The readers trim the text \<open>Value\<close> has already trimmed; trimming twice is
  trimming once.\<close>

lemma unicodeSpace2_length: "x \<in> set unicodeSpace2 \<Longrightarrow> length x = 2"
  by (auto simp: unicodeSpace2_def)

lemma unicodeSpace3_length: "x \<in> set unicodeSpace3 \<Longrightarrow> length x = 3"
  by (auto simp: unicodeSpace3_def)

lemma spacePrefix_TrimLeft: "spacePrefix (TrimLeft s) = 0"
proof (induction s rule: TrimLeft.induct)
  case (1 s)
  show ?case
  proof (cases "spacePrefix s = 0")
    case True
    then show ?thesis by (subst TrimLeft.simps) simp
  next
    case False
    then show ?thesis using 1 by (subst TrimLeft.simps) simp
  qed
qed

lemma spaceSuffix_TrimRight: "spaceSuffix (TrimRight s) = 0"
proof (induction s rule: TrimRight.induct)
  case (1 s)
  show ?case
  proof (cases "spaceSuffix s = 0")
    case True
    then show ?thesis by (subst TrimRight.simps) simp
  next
    case False
    then show ?thesis using 1 by (subst TrimRight.simps) simp
  qed
qed

lemma TrimLeft_id: "spacePrefix s = 0 \<Longrightarrow> TrimLeft s = s"
  by (subst TrimLeft.simps) simp

lemma TrimRight_id: "spaceSuffix s = 0 \<Longrightarrow> TrimRight s = s"
  by (subst TrimRight.simps) simp

lemma spacePrefix_take:
  assumes "spacePrefix s = 0"
  shows "spacePrefix (take k s) = 0"
proof (cases "take k s = []")
  case True
  then show ?thesis by (simp add: spacePrefix_def)
next
  case False
  then have k: "0 < k" and s: "s \<noteq> []" by auto
  have h: "hd (take k s) = hd s"
    using k s by (cases s; cases k) simp_all
  have a: "hd s \<notin> set asciiSpace"
    and b: "take 2 s \<notin> set unicodeSpace2"
    and c: "take 3 s \<notin> set unicodeSpace3"
    using assms s by (simp_all add: spacePrefix_def split: if_splits)
  have b': "take 2 (take k s) \<notin> set unicodeSpace2"
  proof (cases "2 \<le> k")
    case True
    then show ?thesis using b by (simp add: min_def)
  next
    case False
    then have "length (take 2 (take k s)) < 2" by simp
    then show ?thesis using unicodeSpace2_length by fastforce
  qed
  have c': "take 3 (take k s) \<notin> set unicodeSpace3"
  proof (cases "3 \<le> k")
    case True
    then show ?thesis using c by (simp add: min_def)
  next
    case False
    then have "length (take 3 (take k s)) < 3" by simp
    then show ?thesis using unicodeSpace3_length by fastforce
  qed
  show ?thesis
    using False h a b' c' by (simp add: spacePrefix_def)
qed

lemma spacePrefix_TrimRight: "spacePrefix s = 0 \<Longrightarrow> spacePrefix (TrimRight s) = 0"
proof (induction s rule: TrimRight.induct)
  case (1 s)
  show ?case
  proof (cases "spaceSuffix s = 0")
    case True
    then show ?thesis using 1(2) by (subst TrimRight.simps) simp
  next
    case False
    then show ?thesis
      using 1 by (subst TrimRight.simps) (simp add: spacePrefix_take)
  qed
qed

lemma TrimSpace_idem [simp]: "TrimSpace (TrimSpace s) = TrimSpace s"
proof -
  have p: "spacePrefix (TrimSpace s) = 0"
    unfolding TrimSpace_def by (rule spacePrefix_TrimRight) (rule spacePrefix_TrimLeft)
  have q: "spaceSuffix (TrimSpace s) = 0"
    unfolding TrimSpace_def by (rule spaceSuffix_TrimRight)
  show ?thesis
    using p q by (simp add: TrimSpace_def TrimLeft_id TrimRight_id)
qed

section \<open>Theorems\<close>

subsection \<open>Deletion flag\<close>

definition wfVulpo :: "Vulpo \<Rightarrow> bool" where
  "wfVulpo v = (case data v of None \<Rightarrow> True | Some d \<Rightarrow> wellFormed d)"

text \<open>
  C9. While the table is closed, or the cursor is at BOF or at EOF, \<open>Deleted\<close> returns
  false (it has no error result), and \<open>Delete\<close> and \<open>Recall\<close> each return an error and
  leave the handle, hence every row's deletion flag, as it was.
\<close>

theorem C9_unpositioned_rejected:
  assumes "BOF v \<or> EOF v \<or> \<not> Active v"
  shows "\<not> Deleted v \<and>
         fst (Delete v) \<noteq> None \<and> snd (Delete v) = v \<and>
         fst (Recall v) \<noteq> None \<and> snd (Recall v) = v"
  using assms
  by (auto simp: Deleted_def Delete_def Recall_def Active_def BOF_def EOF_def
           split: option.splits)

theorem C9_unpositioned_rejected_witness:
  "BOF demoBOF \<and> \<not> Deleted demoBOF \<and>
   fst (Delete demoBOF) = Some (NewError ''no current record to delete'') \<and>
   snd (Delete demoBOF) = demoBOF \<and>
   fst (Recall demoBOF) = Some (NewError ''no current record to recall'') \<and>
   snd (Recall demoBOF) = demoBOF"
proof -
  have b: "BOF demoBOF"
    by (simp add: demo_defs cursor_defs)
  then have "BOF demoBOF \<or> EOF demoBOF \<or> \<not> Active demoBOF" by simp
  from C9_unpositioned_rejected [OF this] b show ?thesis
    by (simp add: Delete_def Recall_def demo_defs cursor_defs)
qed

text \<open>
  C8. On a table whose cursor addresses one of its rows, a \<open>Delete\<close> that returns no
  error is followed by \<open>Deleted\<close> returning true, and a \<open>Recall\<close> that returns no error
  by \<open>Deleted\<close> returning false.
\<close>

theorem C8_flag_after_Delete_Recall:
  assumes "wfVulpo v"
  shows "(fst (Delete v) = None \<longrightarrow> Deleted (snd (Delete v))) \<and>
         (fst (Recall v) = None \<longrightarrow> \<not> Deleted (snd (Recall v)))"
proof (cases "data v")
  case None
  then show ?thesis by (simp add: Delete_def Recall_def)
next
  case (Some d)
  show ?thesis
  proof (cases "cur d")
    case (AtRow n)
    then have n: "1 \<le> n" "n \<le> length (rows d)"
      using assms Some by (simp_all add: wfVulpo_def wellFormed_def)
    then have "n - 1 < length (rows d)" by arith
    then show ?thesis
      using Some AtRow n
      by (simp add: Delete_def Recall_def Deleted_def cursor_defs d4deleted_def
            d4delete_def d4recall_def setDeleted_def)
  qed (use Some in \<open>simp_all add: Delete_def Recall_def cursor_defs\<close>)
qed

theorem C8_flag_after_Delete_Recall_witness:
  "wfVulpo demo \<and> \<not> Deleted demo \<and>
   fst (Delete demo) = None \<and> Deleted (snd (Delete demo)) \<and>
   Deleted (demoAt 2) \<and>
   fst (Recall (demoAt 2)) = None \<and> \<not> Deleted (snd (Recall (demoAt 2)))"
proof -
  have w1: "wfVulpo demo" and w2: "wfVulpo (demoAt 2)"
    by (simp_all add: wfVulpo_def wellFormed_def demo_defs)
  have s1: "fst (Delete demo) = None" and s2: "fst (Recall (demoAt 2)) = None"
    by (simp_all add: Delete_def Recall_def demo_defs cursor_defs)
  have d: "\<not> Deleted demo" "Deleted (demoAt 2)"
    by (simp_all add: Deleted_def d4deleted_def demo_defs cursor_defs)
  from C8_flag_after_Delete_Recall [OF w1] C8_flag_after_Delete_Recall [OF w2] w1 s1 s2 d
  show ?thesis by simp
qed

subsection \<open>Scoped seek\<close>

text \<open>
  C5. On an open table, for a tag with a tag pointer and any search value,
  \<open>SeekWithTag\<close> and \<open>SeekDoubleWithTag\<close> leave the selected tag as it was before the
  call. This holds for every outcome of the engine's seek: \<open>io\<close> and \<open>locate\<close> range
  over its failures too.
\<close>

theorem C5_scoped_seek_restores_tag:
  assumes "Active v" and "IsValid t"
  shows "SelectedTag (snd (SeekWithTag io v (Some t) searchValue)) = SelectedTag v \<and>
         SelectedTag (snd (SeekDoubleWithTag locate v (Some t) x)) = SelectedTag v"
proof -
  obtain d where d: "data v = Some d"
    using assms(1) by (auto simp: Active_def)
  obtain rc d1 where s: "d4seek io (d4tagSelect d (tagPtr t)) searchValue = (rc, d1)"
    by (cases "d4seek io (d4tagSelect d (tagPtr t)) searchValue")
  have frame: "tags d1 = tags d"
    using s
    by (auto simp: d4seek_def d4tagSelect_def d4tagSelected_def
             split: if_splits option.splits list.splits)
  obtain rc2 c2 where l: "locate (d4tagSelect d (tagPtr t)) x = (rc2, c2)"
    by (cases "locate (d4tagSelect d (tagPtr t)) x")
  have one: "SelectedTag (snd (SeekWithTag io v (Some t) searchValue)) = SelectedTag v"
    using d assms(2) s frame
    by (simp add: SeekWithTag_def Active_def SelectTag_def Seek_def SelectedTag_def
          IsValid_def d4tagSelected_def d4tagSelect_def t4alias_def split: option.splits)
  have two: "SelectedTag (snd (SeekDoubleWithTag locate v (Some t) x)) = SelectedTag v"
    using d assms(2) l
    by (simp add: SeekDoubleWithTag_def Active_def SelectTag_def SeekDouble_def
          SelectedTag_def IsValid_def d4seekDouble_def d4tagSelected_def d4tagSelect_def
          t4alias_def split: option.splits)
  from one two show ?thesis by simp
qed

theorem C5_scoped_seek_restores_tag_witness:
  "Active (demoTable (AtRow 1) (Some 1)) \<and> IsValid \<lparr>name = ''NAME'', tagPtr = Some 0\<rparr> \<and>
   SelectedTag (demoTable (AtRow 1) (Some 1)) = Some \<lparr>name = ''BORN'', tagPtr = Some 1\<rparr> \<and>
   fst (SeekWithTag 0 (demoTable (AtRow 1) (Some 1))
          (Some \<lparr>name = ''NAME'', tagPtr = Some 0\<rparr>) '' yEs'') = (SeekSuccess, None) \<and>
   SelectedTag (snd (SeekWithTag 0 (demoTable (AtRow 1) (Some 1))
          (Some \<lparr>name = ''NAME'', tagPtr = Some 0\<rparr>) '' yEs''))
     = Some \<lparr>name = ''BORN'', tagPtr = Some 1\<rparr> \<and>
   fst (SeekWithTag (- 40) (demoTable (AtRow 1) (Some 1))
          (Some \<lparr>name = ''NAME'', tagPtr = Some 0\<rparr>) '' yEs'') = (SeekError, None) \<and>
   SelectedTag (snd (SeekWithTag (- 40) (demoTable (AtRow 1) (Some 1))
          (Some \<lparr>name = ''NAME'', tagPtr = Some 0\<rparr>) '' yEs''))
     = Some \<lparr>name = ''BORN'', tagPtr = Some 1\<rparr>"
proof -
  have a: "Active (demoTable (AtRow 1) (Some 1))"
    and i: "IsValid \<lparr>name = ''NAME'', tagPtr = Some 0\<rparr>"
    by (simp_all add: Active_def IsValid_def demo_defs)
  have n: "SelectedTag (demoTable (AtRow 1) (Some 1)) = Some \<lparr>name = ''BORN'', tagPtr = Some 1\<rparr>"
    by (simp add: SelectedTag_def d4tagSelected_def t4alias_def demo_defs)
  have r1: "fst (SeekWithTag 0 (demoTable (AtRow 1) (Some 1))
                   (Some \<lparr>name = ''NAME'', tagPtr = Some 0\<rparr>) '' yEs'') = (SeekSuccess, None)"
    by code_simp
  have r2: "fst (SeekWithTag (- 40) (demoTable (AtRow 1) (Some 1))
                   (Some \<lparr>name = ''NAME'', tagPtr = Some 0\<rparr>) '' yEs'') = (SeekError, None)"
    by code_simp
  from C5_scoped_seek_restores_tag
         [OF a i, where io = 0 and searchValue = "'' yEs''"
            and locate = "\<lambda>d (k::int). (0, AtEOF)" and x = 0]
       C5_scoped_seek_restores_tag
         [OF a i, where io = "- 40" and searchValue = "'' yEs''"
            and locate = "\<lambda>d (k::int). (0, AtEOF)" and x = 0]
       a i n r1 r2
  show ?thesis by simp
qed

subsection \<open>Character fields\<close>

lemma TrimSpace_Nil [simp]: "TrimSpace [] = []"
  by (simp add: TrimSpace_def TrimLeft_id TrimRight_id spacePrefix_def spaceSuffix_def)









subsection \<open>Date fields\<close>

lemma DateField_blank:
  assumes "checkActive v = None"
    and "f4ptr (the (data v)) cField = Some blankDateValue"
  shows "DateField_AsString v cField = ([], None)"
    and "DateField_AsTime v cField = (zeroTime, None)"
  using assms
  by (simp_all add: DateField_AsString_def DateField_AsTime_def f4len_def blankDateValue_def)

lemma Atoi_digits:
  assumes "ds \<noteq> []" and "list_all isDigit ds" and "length ds \<le> 4"
  shows "\<exists>n. Atoi ds = Some n \<and> 0 \<le> n \<and> n < 10 ^ length ds"
proof -
  have dv: "list_all isDigit cs \<Longrightarrow> 0 \<le> a \<Longrightarrow>
              0 \<le> digitsVal a cs \<and> digitsVal a cs < (a + 1) * 10 ^ length cs" for a cs
  proof (induction cs arbitrary: a)
    case Nil
    then show ?case by simp
  next
    case (Cons c cs)
    have c: "48 \<le> (of_char c :: nat)" "(of_char c :: nat) \<le> 57"
      using Cons.prems(1) by (simp_all add: isDigit_def less_eq_char_def)
    then have r: "0 \<le> a * 10 + (int (of_char c) - 48)"
      and u: "a * 10 + (int (of_char c) - 48) + 1 \<le> (a + 1) * 10"
      using Cons.prems(2) by simp_all
    from Cons.IH [OF _ r] Cons.prems(1)
    have lo: "0 \<le> digitsVal (a * 10 + (int (of_char c) - 48)) cs"
      and hi: "digitsVal (a * 10 + (int (of_char c) - 48)) cs
                 < (a * 10 + (int (of_char c) - 48) + 1) * 10 ^ length cs"
      by simp_all
    have "(a * 10 + (int (of_char c) - 48) + 1) * 10 ^ length cs
            \<le> ((a + 1) * 10) * 10 ^ length cs"
      using u by (intro mult_right_mono) simp_all
    also have "\<dots> = (a + 1) * 10 ^ length (c # cs)"
      by (simp del: distrib_right_numeral distrib_left_numeral)
    finally have "digitsVal (a * 10 + (int (of_char c) - 48)) cs < (a + 1) * 10 ^ length (c # cs)"
      using hi by linarith
    with lo show ?case by (simp only: digitsVal.simps)
  qed
  from dv [OF assms(2), of 0]
  have lo: "0 \<le> digitsVal 0 ds" and hi: "digitsVal 0 ds < 10 ^ length ds"
    by simp_all
  have "(10::int) ^ length ds \<le> 10 ^ 4"
    using assms(3) by (intro power_increasing) simp_all
  then have b: "digitsVal 0 ds < 2 ^ 63"
    using hi by simp
  have h: "hd ds \<noteq> CHR ''-'' \<and> hd ds \<noteq> CHR ''+''"
    using assms(1,2) by (cases ds) (auto simp: isDigit_def less_eq_char_def)
  show ?thesis
    using assms(1,2) h lo hi b by (simp add: Atoi_def Let_def)
qed

text \<open>A stored value of eight digits whose month is in 1..12 and whose day is in 1..31
  decodes without error.\<close>

lemma DateField_digits:
  assumes "checkActive v = None"
    and "f4ptr (the (data v)) cField = Some bs"
    and "length bs = 8" and "list_all isDigit bs"
    and "Atoi (take 2 (drop 4 bs)) = Some m" and "1 \<le> m" and "m \<le> 12"
    and "Atoi (take 2 (drop 6 bs)) = Some dd" and "1 \<le> dd" and "dd \<le> 31"
  shows "\<exists>y. Atoi (take 4 bs) = Some y \<and> DateField_AsTime v cField = (time_Date y m dd, None)"
proof -
  have nb: "bs \<noteq> blankDateValue" "bs \<noteq> []"
    using assms(3,4) by (auto simp: blankDateValue_def isDigit_def less_eq_char_def)
  have s: "DateField_AsString v cField = (bs, None)"
    using assms(1-3) nb by (simp add: DateField_AsString_def f4len_def)
  have "take 4 bs \<noteq> []" "list_all isDigit (take 4 bs)" "length (take 4 bs) \<le> 4"
    using assms(3,4) by (auto simp: list_all_iff dest: in_set_takeD)
  from Atoi_digits [OF this] obtain y where y: "Atoi (take 4 bs) = Some y"
    by blast
  show ?thesis
    using s y nb assms(3,5-10) by (simp add: DateField_AsTime_def)
qed

text \<open>
  C7 at the stored value \<open>2024+1+1\<close>, which is not blank and is not eight digits:
  \<open>AsTime\<close> returns 1 January 2024 with no error, because \<open>strconv.Atoi\<close> accepts the
  sign in \<open>+1\<close>.
\<close>

theorem C7_signed_parts_accepted:
  "checkActive demo = None \<and>
   f4ptr (the (data demo)) 1 = Some ''2024+1+1'' \<and>
   ''2024+1+1'' \<noteq> blankDateValue \<and>
   \<not> list_all isDigit ''2024+1+1'' \<and>
   DateField_AsString demo 1 = (''2024+1+1'', None) \<and>
   DateField_AsTime demo 1 = (time_Date 2024 1 1, None)"
proof -
  have a: "checkActive demo = None"
    by (simp add: checkActive_def demo_defs cursor_defs)
  have f: "f4ptr (the (data demo)) 1 = Some ''2024+1+1''"
    by (simp add: f4ptr_def f4str_def cellOf_def demo_defs)
  have s: "DateField_AsString demo 1 = (''2024+1+1'', None)"
    using a f by (simp add: DateField_AsString_def f4len_def blankDateValue_def)
  have y: "Atoi ''2024'' = Some 2024" and m: "Atoi ''+1'' = Some 1"
    by (simp_all add: Atoi_def isDigit_def)
  have t: "DateField_AsTime demo 1 = (time_Date 2024 1 1, None)"
    using s y m by (simp add: DateField_AsTime_def blankDateValue_def)
  have n: "\<not> list_all isDigit ''2024+1+1''"
    by (simp add: isDigit_def)
  from a f s t n show ?thesis
    by (simp add: blankDateValue_def)
qed

subsection \<open>Regex search with and without the index\<close>

lemma withinMaxResults_UseIndex [simp]:
  "withinMaxResults (opts\<lparr>UseIndex := b\<rparr>) result = withinMaxResults opts result"
  by (simp add: withinMaxResults_def)

lemma performFullRegexScan_loop_UseIndex:
  "performFullRegexScan_loop u fieldName compiled (opts\<lparr>UseIndex := b\<rparr>) v result =
   performFullRegexScan_loop u fieldName compiled opts v result"
proof (induction u fieldName compiled opts v result rule: performFullRegexScan_loop.induct)
  case (1 u fieldName compiled opts v result)
  show ?case
    apply (subst performFullRegexScan_loop.simps)
    apply (subst (2) performFullRegexScan_loop.simps)
    using 1
    apply (auto split: prod.splits option.splits)
    done
qed

text \<open>
  The part of C1 that holds: when \<open>findTagForField\<close> finds no tag for the column,
  \<open>RegexSearch\<close> with \<open>UseIndex\<close> set returns what it returns with \<open>UseIndex\<close> unset (the
  full scan), result and handle alike, and reports no error of its own.
\<close>

lemma performFullRegexScan_UseIndex:
  "performFullRegexScan u v fieldName compiled (opts\<lparr>UseIndex := b\<rparr>) result =
   performFullRegexScan u v fieldName compiled opts result"
  unfolding performFullRegexScan_def performFullRegexScan_loop_UseIndex by (rule refl)

lemma tryIndexOptimization_without_tag:
  assumes "findTagForField v fieldName = None"
  shows "tryIndexOptimization io u v fieldName pattern compiled options result
           = ((False, result), v)"
  using assms by (simp add: tryIndexOptimization_def performIndexPrefixSearch_def)

lemma RegexSearch_falls_back_without_tag:
  assumes "findTagForField v fieldName = None"
  shows "RegexSearch io u Compile v fieldName pattern (Some (opts\<lparr>UseIndex := True\<rparr>)) =
         RegexSearch io u Compile v fieldName pattern (Some (opts\<lparr>UseIndex := False\<rparr>))"
  unfolding RegexSearch_def defaultOptions_def tryIndexOptimization_without_tag [OF assms]
  by (simp add: performFullRegexScan_UseIndex cong: option.case_cong sum.case_cong if_cong)

text \<open>
  A table for C1: a Character column \<open>NAME\<close> holding \<open>A\<close> in record 1 and \<open>AB\<close> in
  record 2, with a tag named \<open>NAME\<close> on it. \<open>matchABstar\<close> is what Go's \<open>regexp\<close> computes
  for the pattern \<open>^AB*\<close>: one match at the start of a text that begins with \<open>A\<close>,
  reaching over the \<open>B\<close>s that follow, and none otherwise.
\<close>

definition prefixTable :: Vulpo where
  "prefixTable =
     \<lparr>data = Some \<lparr>rows = [\<lparr>deleted = False, cells = [''A   '']\<rparr>,
                            \<lparr>deleted = False, cells = [''AB  '']\<rparr>],
                    cur = AtRow 1,
                    tags = [\<lparr>tagName = ''NAME'', keyField = 0\<rparr>],
                    tagSelected = None\<rparr>,
      fieldDefs = [\<lparr>fieldname = ''NAME'', fieldtype = FTCharacter\<rparr>]\<rparr>"

definition matchABstar :: Regexp where
  "matchABstar s =
     (case s of
        [] \<Rightarrow> []
      | c # r \<Rightarrow>
          (if c = CHR ''A'' then [(0, 1 + int (length (takeWhile (\<lambda>x. x = CHR ''B'') r)))]
           else []))"

definition compileABstar :: "string \<Rightarrow> error + Regexp" where
  "compileABstar p =
     (if p = ''^AB*'' then Inr matchABstar else Inl (NewError ''pattern not in this table''))"

definition withIndex :: "bool \<Rightarrow> RegexSearchOptions" where
  "withIndex b = \<lparr>CaseInsensitive = False, MaxResults = 0, UseIndex = b, IndexField = []\<rparr>"

text \<open>
  C1 at that table and the pattern \<open>^AB*\<close>. \<open>extractPrefix\<close> takes \<open>AB\<close> for the
  literal prefix although \<open>B*\<close> may match nothing. With \<open>UseIndex\<close> the search seeks
  \<open>AB\<close> and returns record 2 only; without it the full scan returns records 1 and 2.
  Neither call reports an error, and both leave the handle as it was.
\<close>

theorem C1_prefix_search_loses_match:
  "isSimplePrefix ''^AB*'' \<and> extractPrefix ''^AB*'' = ''AB'' \<and>
   findTagForField prefixTable ''NAME'' = Some \<lparr>name = ''NAME'', tagPtr = Some 0\<rparr> \<and>
   fst (RegexSearch 0 (\<lambda>s. s) compileABstar prefixTable ''NAME'' ''^AB*'' (Some (withIndex True)))
     = (Some \<lparr>Pattern = ''^AB*'',
              Matches = [\<lparr>rmRecordNumber = 2, FieldValue = ''AB'', rmMatches = [(0, 2)],
                          rmFieldReader = 0\<rparr>],
              TotalScanned = 1, TotalMatched = 1\<rparr>, None) \<and>
   fst (RegexSearch 0 (\<lambda>s. s) compileABstar prefixTable ''NAME'' ''^AB*'' (Some (withIndex False)))
     = (Some \<lparr>Pattern = ''^AB*'',
              Matches = [\<lparr>rmRecordNumber = 1, FieldValue = ''A'', rmMatches = [(0, 1)],
                          rmFieldReader = 0\<rparr>,
                         \<lparr>rmRecordNumber = 2, FieldValue = ''AB'', rmMatches = [(0, 2)],
                          rmFieldReader = 0\<rparr>],
              TotalScanned = 2, TotalMatched = 2\<rparr>, None) \<and>
   snd (RegexSearch 0 (\<lambda>s. s) compileABstar prefixTable ''NAME'' ''^AB*'' (Some (withIndex True)))
     = prefixTable \<and>
   snd (RegexSearch 0 (\<lambda>s. s) compileABstar prefixTable ''NAME'' ''^AB*'' (Some (withIndex False)))
     = prefixTable"
proof -
  have p: "isSimplePrefix ''^AB*''" and e: "extractPrefix ''^AB*'' = ''AB''"
    by (simp_all add: isSimplePrefix_def extractPrefix_def metachars_def)
  have t: "findTagForField prefixTable ''NAME'' = Some \<lparr>name = ''NAME'', tagPtr = Some 0\<rparr>"
    by code_simp
  have i: "RegexSearch 0 (\<lambda>s. s) compileABstar prefixTable ''NAME'' ''^AB*''
             (Some (withIndex True))
           = ((Some \<lparr>Pattern = ''^AB*'',
                 Matches = [\<lparr>rmRecordNumber = 2, FieldValue = ''AB'', rmMatches = [(0, 2)],
                             rmFieldReader = 0\<rparr>],
                 TotalScanned = 1, TotalMatched = 1\<rparr>, None), prefixTable)"
    by code_simp
  have f: "RegexSearch 0 (\<lambda>s. s) compileABstar prefixTable ''NAME'' ''^AB*''
             (Some (withIndex False))
           = ((Some \<lparr>Pattern = ''^AB*'',
                 Matches = [\<lparr>rmRecordNumber = 1, FieldValue = ''A'', rmMatches = [(0, 1)],
                             rmFieldReader = 0\<rparr>,
                            \<lparr>rmRecordNumber = 2, FieldValue = ''AB'', rmMatches = [(0, 2)],
                             rmFieldReader = 0\<rparr>],
                 TotalScanned = 2, TotalMatched = 2\<rparr>, None), prefixTable)"
    by code_simp
  show ?thesis
    unfolding i f using p e t by simp
qed

end
